theory Spec2Isabelle
  imports Main
begin

section \<open>Outcomes of Go calls\<close>

text \<open>
  A Go call either returns, returns an error value, or panics.  The three are kept apart:
  a panic is a run-time fault (nil dereference, index or slice bound out of range), an
  error is an ordinary return value.
\<close>

datatype panic = IndexOutOfRange | SliceBoundsOutOfRange | NilDereference

datatype error =
    CreateEncryptJoinCodeError
  | CreateEncryptLeaderCodeError
  | CreateQueryError
  | CreateFacilitatorError
  | CreateStoryError
  | CreateCommitError
  | UpdateEncryptJoinCodeError
  | UpdateEncryptLeaderCodeError
  | UpdateQueryError
  | GetQueryError
  | GetScaleUnmarshalError
  | GetDecodeJoinCodeError
  | GetDecodeLeaderCodeError
  | DeleteQueryError
  | RedisError

datatype 'a outcome = Return 'a | Fail error | Panic panic

section \<open>Go strings (package ai)\<close>

text \<open>
  A Go string is a byte sequence; \<open>len\<close>, indexing, slicing and \<open>strings.Index\<close> count
  bytes.  \<open>string\<close> (a list of 8-bit characters) is exactly that, and the non-ASCII
  literals of the source are written as their UTF-8 bytes.
\<close>

definition has_prefix :: "string \<Rightarrow> string \<Rightarrow> bool" where
  "has_prefix s p \<longleftrightarrow> take (length p) s = p"

definition occurrences :: "string \<Rightarrow> string \<Rightarrow> nat list" where
  \<comment> \<open>the byte offsets at which \<open>sub\<close> occurs in \<open>s\<close>, ascending\<close>
  "occurrences s sub = [i \<leftarrow> [0 ..< Suc (length s)]. take (length sub) (drop i s) = sub]"

definition Index :: "string \<Rightarrow> string \<Rightarrow> int" where
  \<comment> \<open>\<open>strings.Index\<close>: first offset, or -1\<close>
  "Index s sub = (case occurrences s sub of [] \<Rightarrow> - 1 | i # _ \<Rightarrow> int i)"

definition LastIndex :: "string \<Rightarrow> string \<Rightarrow> int" where
  \<comment> \<open>\<open>strings.LastIndex\<close>: last offset, or -1\<close>
  "LastIndex s sub = (case occurrences s sub of [] \<Rightarrow> - 1 | i # is \<Rightarrow> int (last (i # is)))"

definition Contains :: "string \<Rightarrow> string \<Rightarrow> bool" where
  "Contains s sub \<longleftrightarrow> Index s sub \<ge> 0"

definition slice :: "string \<Rightarrow> int \<Rightarrow> int \<Rightarrow> string outcome" where
  \<comment> \<open>\<open>s[lo:hi]\<close>, which panics unless \<open>0 \<le> lo \<le> hi \<le> len(s)\<close>\<close>
  "slice s lo hi =
     (if 0 \<le> lo \<and> lo \<le> hi \<and> hi \<le> int (length s)
      then Return (take (nat (hi - lo)) (drop (nat lo) s))
      else Panic SliceBoundsOutOfRange)"

definition slice_from :: "string \<Rightarrow> int \<Rightarrow> string outcome" where
  \<comment> \<open>\<open>s[lo:]\<close>\<close>
  "slice_from s lo = slice s lo (int (length s))"

definition slice_to :: "string \<Rightarrow> int \<Rightarrow> string outcome" where
  \<comment> \<open>\<open>s[:hi]\<close>\<close>
  "slice_to s hi = slice s 0 hi"

definition space_runes :: "string list" where
  \<comment> \<open>the UTF-8 encodings of the code points for which \<open>unicode.IsSpace\<close> holds:
      TAB, LF, VT, FF, CR, SPACE, U+0085, U+00A0, U+1680, U+2000 .. U+200A, U+2028, U+2029,
      U+202F, U+205F, U+3000\<close>
  "space_runes =
     [[CHR 0x09], [CHR 0x0A], [CHR 0x0B], [CHR 0x0C], [CHR 0x0D], [CHR 0x20],
      [CHR 0xC2, CHR 0x85], [CHR 0xC2, CHR 0xA0],
      [CHR 0xE1, CHR 0x9A, CHR 0x80],
      [CHR 0xE2, CHR 0x80, CHR 0x80], [CHR 0xE2, CHR 0x80, CHR 0x81],
      [CHR 0xE2, CHR 0x80, CHR 0x82], [CHR 0xE2, CHR 0x80, CHR 0x83],
      [CHR 0xE2, CHR 0x80, CHR 0x84], [CHR 0xE2, CHR 0x80, CHR 0x85],
      [CHR 0xE2, CHR 0x80, CHR 0x86], [CHR 0xE2, CHR 0x80, CHR 0x87],
      [CHR 0xE2, CHR 0x80, CHR 0x88], [CHR 0xE2, CHR 0x80, CHR 0x89],
      [CHR 0xE2, CHR 0x80, CHR 0x8A],
      [CHR 0xE2, CHR 0x80, CHR 0xA8], [CHR 0xE2, CHR 0x80, CHR 0xA9],
      [CHR 0xE2, CHR 0x80, CHR 0xAF], [CHR 0xE2, CHR 0x81, CHR 0x9F],
      [CHR 0xE3, CHR 0x80, CHR 0x80]]"

fun trim_runes :: "string list \<Rightarrow> string \<Rightarrow> string" where
  \<comment> \<open>drops leading occurrences of the given byte sequences (none of them is empty, so a
      match of \<open>w\<close> at \<open>c # cs\<close> leaves \<open>drop (length w - 1) cs\<close>)\<close>
  "trim_runes ws [] = []"
| "trim_runes ws (c # cs) =
     (case [w \<leftarrow> ws. w \<noteq> [] \<and> has_prefix (c # cs) w] of
        [] \<Rightarrow> c # cs
      | w # _ \<Rightarrow> trim_runes ws (drop (length w - 1) cs))"

definition TrimSpace :: "string \<Rightarrow> string" where
  \<comment> \<open>\<open>strings.TrimSpace\<close>: leading and trailing white space removed\<close>
  "TrimSpace s = rev (trim_runes (map rev space_runes) (rev (trim_runes space_runes s)))"

definition is_digit :: "char \<Rightarrow> bool" where
  "is_digit c \<longleftrightarrow> 48 \<le> (of_char c :: nat) \<and> (of_char c :: nat) \<le> 57"

definition digit_val :: "char \<Rightarrow> int" where
  "digit_val c = int (of_char c) - 48"

definition Atoi :: "string \<Rightarrow> int option" where
  \<comment> \<open>\<open>strconv.Atoi\<close> on a 64-bit platform: an optional sign, then one or more decimal
      digits, the value within the range of \<open>int\<close>; \<open>None\<close> is the error return\<close>
  "Atoi s =
     (let neg = (s \<noteq> [] \<and> hd s = CHR ''-'');
          ds = (if s \<noteq> [] \<and> (hd s = CHR ''-'' \<or> hd s = CHR ''+'') then tl s else s)
      in if ds = [] \<or> \<not> list_all is_digit ds then None
         else (let n = foldl (\<lambda>a c. 10 * a + digit_val c) 0 ds;
                   v = (if neg then - n else n)
               in if v < - (2 ^ 63) \<or> v > 2 ^ 63 - 1 then None else Some v))"

section \<open>Point suggestion (package ai)\<close>

record PointSuggestionResponse =
  SuggestedPoint :: string
  Reason :: string

text \<open>
  Two library calls are parameters of the model.  \<open>ToLower\<close> is \<open>strings.ToLower\<close>, whose
  Unicode case tables are not reproduced; \<open>Unmarshal\<close> is \<open>encoding/json\<close>'s
  \<open>json.Unmarshal\<close> into a \<open>PointSuggestionResponse\<close>, \<open>None\<close> for its error return.
\<close>

record golib =
  ToLower :: "string \<Rightarrow> string"
  Unmarshal :: "string \<Rightarrow> PointSuggestionResponse option"

definition asciiToLower :: "string \<Rightarrow> string" where
  \<comment> \<open>what \<open>strings.ToLower\<close> computes on a string whose only letters with a lower-case
      form are ASCII\<close>
  "asciiToLower s =
     map (\<lambda>c. if 65 \<le> (of_char c :: nat) \<and> (of_char c :: nat) \<le> 90
              then char_of (of_char c + (32 :: nat)) else c) s"

definition wrap64 :: "int \<Rightarrow> int" where
  \<comment> \<open>the value of an \<open>int\<close> expression on a 64-bit platform: two's complement wrap-around\<close>
  "wrap64 x = (x + 2 ^ 63) mod 2 ^ 64 - 2 ^ 63"

definition absdiff :: "int \<Rightarrow> int \<Rightarrow> int" where
  \<comment> \<open>what \<open>int(math.Abs(float64(pNum - num)))\<close> computes while the wrapped difference is
      below \<open>2^53\<close> in magnitude, where the conversion to \<open>float64\<close> is exact\<close>
  "absdiff pNum num = \<bar>wrap64 (pNum - num)\<bar>"

definition unsure :: string where
  "unsure = ''?''"

definition coffee :: string where
  \<comment> \<open>U+2615 U+FE0F\<close>
  "coffee = [CHR 0xE2, CHR 0x98, CHR 0x95, CHR 0xEF, CHR 0xB8, CHR 0x8F]"

definition half :: string where
  "half = ''1/2''"

definition MaxInt32 :: int where
  "MaxInt32 = 2147483647"

definition last_point :: "string list \<Rightarrow> string outcome" where
  \<comment> \<open>\<open>availablePoints[len(availablePoints)-1]\<close>\<close>
  "last_point availablePoints =
     (if availablePoints = [] then Panic IndexOutOfRange else Return (last availablePoints))"

fun closest_loop :: "(int \<Rightarrow> int \<Rightarrow> int) \<Rightarrow> int \<Rightarrow> string list \<Rightarrow> string \<times> int \<Rightarrow> string \<times> int" where
  \<comment> \<open>the last loop of \<open>findClosestPoint\<close>, its state the pair \<open>(closest, minDiff)\<close>;
      \<open>fdiff pNum num\<close> stands for \<open>int(math.Abs(float64(pNum - num)))\<close>\<close>
  "closest_loop fdiff num [] st = st"
| "closest_loop fdiff num (p # ps) (closest, minDiff) =
     (if p = unsure \<or> p = coffee \<or> p = half then closest_loop fdiff num ps (closest, minDiff)
      else (case Atoi p of
              None \<Rightarrow> closest_loop fdiff num ps (closest, minDiff)
            | Some pNum \<Rightarrow>
                (let diff = fdiff pNum num
                 in if diff < minDiff then closest_loop fdiff num ps (p, diff)
                    else closest_loop fdiff num ps (closest, minDiff))))"

definition findClosestPoint :: "(int \<Rightarrow> int \<Rightarrow> int) \<Rightarrow> string \<Rightarrow> string list \<Rightarrow> string outcome" where
  "findClosestPoint fdiff point availablePoints =
     (case find (\<lambda>p. p = point) availablePoints of
        Some p \<Rightarrow> Return p
      | None \<Rightarrow>
          if point = unsure \<or> point = coffee then
            (case find (\<lambda>p. p = unsure) availablePoints of
               Some p \<Rightarrow> Return p
             | None \<Rightarrow> last_point availablePoints)
          else
            (case (if point = half
                   then (case find (\<lambda>p. p = half) availablePoints of
                           Some p \<Rightarrow> Some p
                         | None \<Rightarrow> find (\<lambda>p. p = ''1'') availablePoints)
                   else None) of
               Some p \<Rightarrow> Return p
             | None \<Rightarrow>
                 (case Atoi point of
                    None \<Rightarrow>
                      (case find (\<lambda>p. p = unsure) availablePoints of
                         Some p \<Rightarrow> Return p
                       | None \<Rightarrow> last_point availablePoints)
                  | Some num \<Rightarrow>
                      Return (fst (closest_loop fdiff num availablePoints (unsure, MaxInt32))))))"

definition findNumberInContent :: "string \<Rightarrow> string" where
  \<comment> \<open>the first match of the regular expression \<open>[0-9]+\<close>, or the empty string\<close>
  "findNumberInContent content = takeWhile is_digit (dropWhile (\<lambda>c. \<not> is_digit c) content)"

definition is_point_char :: "char \<Rightarrow> bool" where
  \<comment> \<open>the character class \<open>[0-9?]\<close>\<close>
  "is_point_char c \<longleftrightarrow> is_digit c \<or> c = CHR ''?''"

definition match_at :: "string \<Rightarrow> string \<Rightarrow> string \<Rightarrow> nat option" where
  \<comment> \<open>the length of the match of \<open>lit [0-9?]+ suf\<close> at the start of \<open>s\<close>, if there is one:
      the run is greedy and \<open>suf\<close> (empty, or a double quote) is outside the class, so the run
      is the longest one\<close>
  "match_at lit suf s =
     (let rest = drop (length lit) s;
          run = takeWhile is_point_char rest;
          after = drop (length run) rest
      in if has_prefix s lit \<and> run \<noteq> [] \<and> has_prefix after suf
         then Some (length lit + length run + length suf) else None)"

fun remove_pattern :: "string \<Rightarrow> string \<Rightarrow> string \<Rightarrow> string" where
  \<comment> \<open>\<open>regexp.MustCompile(lit + "[0-9?]+" + suf).ReplaceAllString(s, "")\<close>: the matches,
      leftmost first and not overlapping, are deleted (a match has at least one byte, so a
      match of \<open>n\<close> bytes at \<open>c # cs\<close> leaves \<open>drop (n - 1) cs\<close>)\<close>
  "remove_pattern lit suf [] = []"
| "remove_pattern lit suf (c # cs) =
     (case match_at lit suf (c # cs) of
        Some n \<Rightarrow> remove_pattern lit suf (drop (n - 1) cs)
      | None \<Rightarrow> c # remove_pattern lit suf cs)"

definition lit_points :: string where
  \<comment> \<open>the two Han characters U+70B9 U+6570, a colon and a space\<close>
  "lit_points = [CHR 0xE7, CHR 0x82, CHR 0xB9, CHR 0xE6, CHR 0x95, CHR 0xB0, CHR 0x3A, CHR 0x20]"

definition lit_suggested :: string where
  \<comment> \<open>\<open>suggestedPoint":"\<close>\<close>
  "lit_suggested = ''suggestedPoint'' @ [CHR 0x22, CHR 0x3A, CHR 0x22]"

definition lit_advised_points :: string where
  \<comment> \<open>U+5EFA U+8BAE U+70B9 U+6570, a colon and a space\<close>
  "lit_advised_points =
     [CHR 0xE5, CHR 0xBB, CHR 0xBA, CHR 0xE8, CHR 0xAE, CHR 0xAE] @ lit_points"

definition lit_i_advise :: string where
  \<comment> \<open>U+6211 U+5EFA U+8BAE U+7528 and a space\<close>
  "lit_i_advise =
     [CHR 0xE6, CHR 0x88, CHR 0x91, CHR 0xE5, CHR 0xBB, CHR 0xBA, CHR 0xE8, CHR 0xAE, CHR 0xAE,
      CHR 0xE7, CHR 0x94, CHR 0xA8, CHR 0x20]"

definition lit_recommend :: string where
  \<comment> \<open>U+63A8 U+8350 and a space\<close>
  "lit_recommend = [CHR 0xE6, CHR 0x8E, CHR 0xA8, CHR 0xE8, CHR 0x8D, CHR 0x90, CHR 0x20]"

definition lit_use :: string where
  \<comment> \<open>U+4F7F U+7528 and a space\<close>
  "lit_use = [CHR 0xE4, CHR 0xBD, CHR 0xBF, CHR 0xE7, CHR 0x94, CHR 0xA8, CHR 0x20]"

definition lit_assign :: string where
  \<comment> \<open>U+5206 U+914D and a space\<close>
  "lit_assign = [CHR 0xE5, CHR 0x88, CHR 0x86, CHR 0xE9, CHR 0x85, CHR 0x8D, CHR 0x20]"

definition lit_point_suffix :: string where
  \<comment> \<open>a space and U+70B9\<close>
  "lit_point_suffix = [CHR 0x20, CHR 0xE7, CHR 0x82, CHR 0xB9]"

definition reasonPrefixes :: "string list" where
  \<comment> \<open>U+7406 U+7531 and a colon; U+539F U+56E0 and a colon; \<open>reason:\<close>;
      U+7406 U+7531 U+662F; U+6211 U+7684 U+7406 U+7531 U+662F\<close>
  "reasonPrefixes =
     [[CHR 0xE7, CHR 0x90, CHR 0x86, CHR 0xE7, CHR 0x94, CHR 0xB1, CHR 0x3A],
      [CHR 0xE5, CHR 0x8E, CHR 0x9F, CHR 0xE5, CHR 0x9B, CHR 0xA0, CHR 0x3A],
      ''reason:'',
      [CHR 0xE7, CHR 0x90, CHR 0x86, CHR 0xE7, CHR 0x94, CHR 0xB1, CHR 0xE6, CHR 0x98, CHR 0xAF],
      [CHR 0xE6, CHR 0x88, CHR 0x91, CHR 0xE7, CHR 0x9A, CHR 0x84, CHR 0xE7, CHR 0x90, CHR 0x86,
       CHR 0xE7, CHR 0x94, CHR 0xB1, CHR 0xE6, CHR 0x98, CHR 0xAF]]"

definition limit_reason :: "string \<Rightarrow> string" where
  \<comment> \<open>\<open>if len(reason) > 300 { reason = reason[:300] + "..." }\<close>\<close>
  "limit_reason reason = (if length reason > 300 then take 300 reason @ ''...'' else reason)"

definition json_span :: "string \<Rightarrow> (int \<times> int) option" where
  \<comment> \<open>\<open>jsonStart\<close> and \<open>jsonEnd\<close> when \<open>jsonStart >= 0 && jsonEnd > jsonStart\<close>\<close>
  "json_span content =
     (let jsonStart = Index content ''{''; jsonEnd = LastIndex content ''}''
      in if jsonStart \<ge> 0 \<and> jsonEnd > jsonStart then Some (jsonStart, jsonEnd) else None)"

definition json_response :: "golib \<Rightarrow> string \<Rightarrow> PointSuggestionResponse option" where
  \<comment> \<open>the response decoded from \<open>content[jsonStart : jsonEnd+1]\<close>, when there is such a
      span and it decodes without error\<close>
  "json_response L content =
     (case json_span content of
        None \<Rightarrow> None
      | Some (jsonStart, jsonEnd) \<Rightarrow>
          (case slice content jsonStart (jsonEnd + 1) of
             Return jsonContent \<Rightarrow> Unmarshal L jsonContent
           | _ \<Rightarrow> None))"

definition remove_point_statements :: "string \<Rightarrow> string" where
  \<comment> \<open>the loop over the four point-statement patterns of \<open>extractReason\<close>\<close>
  "remove_point_statements reason =
     remove_pattern lit_suggested [CHR 0x22]
       (remove_pattern lit_i_advise []
         (remove_pattern lit_advised_points []
           (remove_pattern lit_points [] reason)))"

definition remove_json :: "string \<Rightarrow> string \<Rightarrow> string outcome" where
  \<comment> \<open>the block of \<open>extractReason\<close> that cuts the JSON span out of \<open>reason\<close>: the offsets are
      those of \<open>content\<close>\<close>
  "remove_json content reason =
     (case json_span content of
        None \<Rightarrow> Return reason
      | Some (jsonStart, jsonEnd) \<Rightarrow>
          if jsonStart > 0 then
            (case slice_to reason jsonStart of
               Return prefix \<Rightarrow>
                 if jsonEnd + 1 < int (length reason) then
                   (case slice_from reason (jsonEnd + 1) of
                      Return suffix \<Rightarrow> Return (prefix @ suffix)
                    | Fail e \<Rightarrow> Fail e
                    | Panic p \<Rightarrow> Panic p)
                 else Return prefix
             | Fail e \<Rightarrow> Fail e
             | Panic p \<Rightarrow> Panic p)
          else slice_from reason (jsonEnd + 1))"

fun reason_by_prefix :: "golib \<Rightarrow> string \<Rightarrow> string list \<Rightarrow> string outcome option" where
  \<comment> \<open>the loop over \<open>reasonPrefixes\<close>: \<open>None\<close> when no prefix occurs\<close>
  "reason_by_prefix L content [] = None"
| "reason_by_prefix L content (prefix # rest) =
     (let idx = Index (ToLower L content) (ToLower L prefix)
      in if idx \<ge> 0 then
           Some (case slice_from content (idx + int (length prefix)) of
                   Return reason \<Rightarrow> Return (TrimSpace (limit_reason reason))
                 | Fail e \<Rightarrow> Fail e
                 | Panic p \<Rightarrow> Panic p)
         else reason_by_prefix L content rest)"

definition extractReason :: "golib \<Rightarrow> string \<Rightarrow> string outcome" where
  "extractReason L content =
     (case (case json_response L content of
              Some response \<Rightarrow> if Reason response \<noteq> [] then Some (Reason response) else None
            | None \<Rightarrow> None) of
        Some reason \<Rightarrow> Return reason
      | None \<Rightarrow>
          (case reason_by_prefix L content reasonPrefixes of
             Some r \<Rightarrow> r
           | None \<Rightarrow>
               (case remove_json content (remove_point_statements content) of
                  Return reason \<Rightarrow> Return (limit_reason (TrimSpace reason))
                | Fail e \<Rightarrow> Fail e
                | Panic p \<Rightarrow> Panic p)))"

definition point_patterns :: "string \<Rightarrow> string list" where
  \<comment> \<open>the eight patterns built for one available point\<close>
  "point_patterns point =
     [lit_points @ point, lit_suggested @ point, lit_advised_points @ point,
      lit_i_advise @ point, lit_recommend @ point, lit_use @ point, lit_assign @ point,
      point @ lit_point_suffix]"

definition with_reason :: "golib \<Rightarrow> string \<Rightarrow> string \<Rightarrow> (string \<times> string) outcome" where
  \<comment> \<open>\<open>return point, extractReason(content)\<close>\<close>
  "with_reason L content point =
     (case extractReason L content of
        Return reason \<Rightarrow> Return (point, reason)
      | Fail e \<Rightarrow> Fail e
      | Panic p \<Rightarrow> Panic p)"

definition parseAIResponse ::
  "golib \<Rightarrow> (int \<Rightarrow> int \<Rightarrow> int) \<Rightarrow> string \<Rightarrow> string list \<Rightarrow> (string \<times> string) outcome" where
  "parseAIResponse L fdiff content0 availablePoints =
     (let content = TrimSpace content0
      in case (case json_response L content of
                 Some response \<Rightarrow> if SuggestedPoint response \<noteq> [] then Some response else None
               | None \<Rightarrow> None) of
           Some response \<Rightarrow>
             if SuggestedPoint response \<in> set availablePoints
             then Return (SuggestedPoint response, Reason response)
             else (case findClosestPoint fdiff (SuggestedPoint response) availablePoints of
                     Return closestPoint \<Rightarrow> Return (closestPoint, Reason response)
                   | Fail e \<Rightarrow> Fail e
                   | Panic p \<Rightarrow> Panic p)
         | None \<Rightarrow>
             (case find (\<lambda>point. list_ex (Contains content) (point_patterns point))
                     availablePoints of
                Some point \<Rightarrow> with_reason L content point
              | None \<Rightarrow>
                  (let foundNumber = findNumberInContent content
                   in if foundNumber \<noteq> [] then
                        (case findClosestPoint fdiff foundNumber availablePoints of
                           Return closestPoint \<Rightarrow> with_reason L content closestPoint
                         | Fail e \<Rightarrow> Fail e
                         | Panic p \<Rightarrow> Panic p)
                      else with_reason L content unsure)))"

section \<open>Cache keys (package redis)\<close>

definition KeyPrefixGame :: string where
  "KeyPrefixGame = ''game:''"

fun Join :: "string list \<Rightarrow> string \<Rightarrow> string" where
  \<comment> \<open>\<open>strings.Join\<close>\<close>
  "Join [] sep = []"
| "Join [x] sep = x"
| "Join (x # y # ys) sep = x @ sep @ Join (y # ys) sep"

definition GenerateCacheKey :: "string \<Rightarrow> string \<Rightarrow> string list \<Rightarrow> string" where
  "GenerateCacheKey prefix ident subType =
     (let key = prefix @ ident
      in if length subType > 0 then key @ '':'' @ Join subType '':'' else key)"

definition game_key :: "string \<Rightarrow> string" where
  \<comment> \<open>\<open>fmt.Sprintf("game:%s", pokerID)\<close>, as written in each of the service's methods\<close>
  "game_key pokerID = ''game:'' @ pokerID"

section \<open>The session aggregate (package thunderdome)\<close>

text \<open>
  Modelled from the spec: the declarations of \<open>thunderdome.Poker\<close>, \<open>thunderdome.Story\<close>,
  \<open>thunderdome.PokerUser\<close> and \<open>thunderdome.EstimationScale\<close> are not among the sources.
  The records below hold the fields that the service reads or writes; a story carries the
  columns that \<open>CreateGame\<close> inserts, an estimation scale the keys that the query of
  \<open>GetGameByID\<close> builds, a participant the attributes the specification lists (identity,
  display name, liveness, spectating).
\<close>

type_synonym time = nat

record Story =
  sName :: string
  sType :: string
  sReferenceID :: string
  sLink :: string
  sDescription :: string
  sAcceptanceCriteria :: string
  sPriority :: int
  sPosition :: int

record PokerUser =
  uID :: string
  uName :: string
  uActive :: bool
  uSpectator :: bool

record EstimationScale =
  es_id :: string
  es_name :: string
  es_description :: string
  es_scale_type :: string
  es_values :: "string list"
  es_created_by :: string
  es_created_at :: time
  es_updated_at :: time
  es_is_public :: bool
  es_organization_id :: string
  es_team_id :: string
  es_default_scale :: bool

record Poker =
  ID :: string
  Name :: string
  Users :: "PokerUser list"
  Stories :: "Story list"
  VotingLocked :: bool
  ActiveStoryID :: string
  PointValuesAllowed :: "string list"
  AutoFinishVoting :: bool
  Facilitators :: "string list"
  PointAverageRounding :: string
  HideVoterIdentity :: bool
  JoinCode :: string
  FacilitatorCode :: string
  TeamID :: string
  EstimationScaleID :: string
  EstimationScale :: "EstimationScale option"
  CreatedDate :: time
  UpdatedDate :: time

section \<open>The durable store\<close>

text \<open>
  The tables the four operations touch, with the columns their statements name.  A
  nullable text column read through \<open>COALESCE(..., '')\<close> is a string, the empty one
  for \<open>NULL\<close>.
\<close>

record poker_row =
  p_name :: string
  p_voting_locked :: bool
  p_active_story_id :: string
  p_point_values_allowed :: "string list"
  p_auto_finish_voting :: bool
  p_point_average_rounding :: string
  p_hide_voter_identity :: bool
  p_join_code :: string
  p_leader_code :: string
  p_estimation_scale_id :: string
  p_team_id :: string
  p_created_date :: time
  p_updated_date :: time

record story_row =
  sr_poker_id :: string
  sr_name :: string
  sr_type :: string
  sr_reference_id :: string
  sr_link :: string
  sr_description :: string
  sr_acceptance_criteria :: string
  sr_priority :: int
  sr_position :: int

record DB =
  poker :: "string \<rightharpoonup> poker_row"
  poker_facilitator :: "(string \<times> string) list"
  poker_story :: "story_row list"
  poker_user :: "(string \<times> PokerUser) list"
  estimation_scale :: "string \<rightharpoonup> EstimationScale"

section \<open>The cache\<close>

text \<open>
  Modelled from the spec: the JSON encoding of \<open>thunderdome.Poker\<close> (its declaration, with
  the field tags, is not among the sources).  The cache holds "a serialized snapshot of the
  full aggregate": an entry is either the snapshot of an aggregate, which decodes to that
  aggregate, or bytes that do not decode.  The expiry after 24 hours is not modelled.
\<close>

datatype cached = Snapshot Poker | Garbage string

definition marshal_Poker :: "Poker \<Rightarrow> cached" where
  \<comment> \<open>\<open>json.Marshal\<close> of an aggregate; it has no error case for this type\<close>
  "marshal_Poker g = Snapshot g"

definition unmarshal_Poker :: "cached \<Rightarrow> Poker option" where
  \<comment> \<open>\<open>json.Unmarshal\<close> into a \<open>thunderdome.Poker\<close>; \<open>None\<close> is its error return\<close>
  "unmarshal_Poker data = (case data of Snapshot g \<Rightarrow> Some g | Garbage _ \<Rightarrow> None)"

datatype redis_cmd = GET string | SET string cached | DEL string | EXISTS string

fun cmd_key :: "redis_cmd \<Rightarrow> string" where
  "cmd_key (GET k) = k"
| "cmd_key (SET k v) = k"
| "cmd_key (DEL k) = k"
| "cmd_key (EXISTS k) = k"

fun is_SET :: "redis_cmd \<Rightarrow> bool" where
  "is_SET (SET k v) = True"
| "is_SET c = False"

text \<open>
  Each command sent to Redis either reaches it (\<open>Up\<close>) or fails (\<open>Down\<close>: time-out,
  connection refused); which, is an input of every operation.  The state of the system
  is the store, the cache, and the log of the commands sent to the cache.
\<close>

datatype conn = Up | Down

record world =
  db :: DB
  cache :: "string \<rightharpoonup> cached"
  rlog :: "redis_cmd list"

definition redis_Get :: "conn \<Rightarrow> string \<Rightarrow> world \<Rightarrow> cached option \<times> world" where
  \<comment> \<open>\<open>None\<close> is an error: \<open>redis.Nil\<close> for an absent key, or the failed round trip\<close>
  "redis_Get c key w =
     ((case c of Up \<Rightarrow> cache w key | Down \<Rightarrow> None), w\<lparr>rlog := rlog w @ [GET key]\<rparr>)"

definition redis_Set :: "conn \<Rightarrow> string \<Rightarrow> cached \<Rightarrow> world \<Rightarrow> bool \<times> world" where
  \<comment> \<open>the flag tells whether the command succeeded\<close>
  "redis_Set c key v w =
     (case c of
        Up \<Rightarrow> (True, w\<lparr>cache := (cache w)(key \<mapsto> v), rlog := rlog w @ [SET key v]\<rparr>)
      | Down \<Rightarrow> (False, w\<lparr>rlog := rlog w @ [SET key v]\<rparr>))"

definition redis_Del :: "conn \<Rightarrow> string \<Rightarrow> world \<Rightarrow> bool \<times> world" where
  \<comment> \<open>\<open>DEL\<close> of an absent key removes nothing and is no error\<close>
  "redis_Del c key w =
     (case c of
        Up \<Rightarrow> (True, w\<lparr>cache := (cache w)(key := None), rlog := rlog w @ [DEL key]\<rparr>)
      | Down \<Rightarrow> (False, w\<lparr>rlog := rlog w @ [DEL key]\<rparr>))"

definition redis_Exists :: "conn \<Rightarrow> string \<Rightarrow> world \<Rightarrow> int option \<times> world" where
  "redis_Exists c key w =
     ((case c of Up \<Rightarrow> Some (if cache w key = None then 0 else 1) | Down \<Rightarrow> None),
      w\<lparr>rlog := rlog w @ [EXISTS key]\<rparr>)"

definition Delete :: "bool \<Rightarrow> conn \<Rightarrow> string \<Rightarrow> world \<Rightarrow> error option outcome \<times> world" where
  \<comment> \<open>\<open>redis.Delete\<close>: \<open>client.Del(ctx, key).Err()\<close> on the package's client, which is nil
      until \<open>InitRedis\<close> has run (\<open>hasClient\<close> tells); the value returned is Go's \<open>error\<close>,
      \<open>None\<close> for nil\<close>
  "Delete hasClient c key w =
     (if \<not> hasClient then (Panic NilDereference, w)
      else (case redis_Del c key w of
              (True, w') \<Rightarrow> (Return None, w')
            | (False, w') \<Rightarrow> (Return (Some RedisError), w')))"

definition issued :: "world \<Rightarrow> world \<Rightarrow> redis_cmd list" where
  \<comment> \<open>the commands logged between an earlier state and a later one\<close>
  "issued w w' = drop (length (rlog w)) (rlog w')"

section \<open>The poker service (package poker)\<close>

record Service =
  AESHashKey :: string
  Redis :: bool

text \<open>
  \<open>db.Encrypt\<close>, \<open>db.Decrypt\<close> (package \<open>internal/db\<close>) are not among the sources and are
  parameters; \<open>None\<close> is their error return.
\<close>

record crypto =
  Encrypt :: "string \<Rightarrow> string \<Rightarrow> string option"
  Decrypt :: "string \<Rightarrow> string \<Rightarrow> string option"

definition Contains_str :: "string list \<Rightarrow> string \<Rightarrow> bool" where
  \<comment> \<open>Modelled from the spec: \<open>db.Contains\<close> (package \<open>internal/db\<close>, not among the
      sources), the test whether the requesting user is in the facilitator set\<close>
  "Contains_str xs x \<longleftrightarrow> x \<in> set xs"

definition GetUsers :: "DB \<Rightarrow> string \<Rightarrow> PokerUser list" where
  \<comment> \<open>Modelled from the spec: \<open>Service.GetUsers\<close> is not among the sources; it yields the
      participants attached to the session\<close>
  "GetUsers d pokerID = map snd (filter (\<lambda>r. fst r = pokerID) (poker_user d))"

definition story_of_row :: "story_row \<Rightarrow> Story" where
  "story_of_row r =
     \<lparr>sName = sr_name r, sType = sr_type r, sReferenceID = sr_reference_id r,
      sLink = sr_link r, sDescription = sr_description r,
      sAcceptanceCriteria = sr_acceptance_criteria r, sPriority = sr_priority r,
      sPosition = sr_position r\<rparr>"

definition GetStories :: "DB \<Rightarrow> string \<Rightarrow> string \<Rightarrow> Story list" where
  \<comment> \<open>Modelled from the spec: \<open>Service.GetStories\<close> is not among the sources; it yields the
      items of the session in the order of their queue positions (what it does with the
      user id is not known and not modelled)\<close>
  "GetStories d pokerID userID =
     map story_of_row (sort_key sr_position (filter (\<lambda>r. sr_poker_id r = pokerID) (poker_story d)))"

record get_env =
  get_conn :: conn
  query_fails :: bool
  scale_unmarshal_fails :: bool
  put_conn :: conn

record create_env =
  begin_fails :: bool
  new_id :: string
  create_now :: time
  poker_insert_fails :: bool
  facilitator_insert_fails :: bool
  story_insert_fails :: "nat \<Rightarrow> bool"
  commit_fails :: bool
  set_conn :: conn
  exists_conn :: conn

record update_env =
  update_fails :: bool
  update_now :: time
  update_del_conn :: conn

record delete_env =
  delete_fails :: bool
  delete_del_conn :: conn

definition zero_scale :: EstimationScale where
  \<comment> \<open>the struct decoded from the object of nulls that the left join yields when no scale
      has the session's scale id\<close>
  "zero_scale =
     \<lparr>es_id = [], es_name = [], es_description = [], es_scale_type = [], es_values = [],
      es_created_by = [], es_created_at = 0, es_updated_at = 0, es_is_public = False,
      es_organization_id = [], es_team_id = [], es_default_scale = False\<rparr>"

definition structurally_complete :: "Poker \<Rightarrow> bool" where
  \<comment> \<open>the test \<open>len(game.Stories) > 0 && len(game.Users) > 0\<close> on a decoded cache entry\<close>
  "structurally_complete game \<longleftrightarrow> length (Stories game) > 0 \<and> length (Users game) > 0"

definition cache_read :: "Service \<Rightarrow> get_env \<Rightarrow> string \<Rightarrow> world \<Rightarrow> Poker option \<times> world" where
  \<comment> \<open>the first block of \<open>GetGameByID\<close>: \<open>Some game\<close> when it returns \<open>&game\<close> from
      the cache, \<open>None\<close> when control goes on to the query\<close>
  "cache_read d env pokerID w =
     (if Redis d then
        (case redis_Get (get_conn env) (game_key pokerID) w of
           (Some cachedData, w') \<Rightarrow>
             (case unmarshal_Poker cachedData of
                Some game \<Rightarrow>
                  if structurally_complete game then (Some game, w') else (None, w')
              | None \<Rightarrow> (None, w'))
         | (None, w') \<Rightarrow> (None, w'))
      else (None, w))"

definition store_read ::
  "crypto \<Rightarrow> Service \<Rightarrow> get_env \<Rightarrow> string \<Rightarrow> string \<Rightarrow> DB \<Rightarrow> Poker outcome" where
  \<comment> \<open>the query of \<open>GetGameByID\<close> and what follows it up to the calls of \<open>GetUsers\<close> and
      \<open>GetStories\<close>.  \<open>estimationScaleJSON\<close> is never empty (the column is a
      \<open>COALESCE\<close> with an object), so the scale is always decoded; the decoding may fail\<close>
  "store_read cr d env pokerID userID database =
     (if query_fails env then Fail GetQueryError
      else case poker database pokerID of
        None \<Rightarrow> Fail GetQueryError
      | Some r \<Rightarrow>
          (let b = \<lparr>ID = pokerID, Name = p_name r, Users = [], Stories = [],
                    VotingLocked = p_voting_locked r, ActiveStoryID = p_active_story_id r,
                    PointValuesAllowed = p_point_values_allowed r,
                    AutoFinishVoting = p_auto_finish_voting r,
                    Facilitators = map snd (filter (\<lambda>bl. fst bl = pokerID) (poker_facilitator database)),
                    PointAverageRounding = p_point_average_rounding r,
                    HideVoterIdentity = p_hide_voter_identity r,
                    JoinCode = [], FacilitatorCode = [],
                    TeamID = p_team_id r, EstimationScaleID = p_estimation_scale_id r,
                    EstimationScale = None,
                    CreatedDate = p_created_date r, UpdatedDate = p_updated_date r\<rparr>;
               joinCode = p_join_code r;
               facilitatorCode = p_leader_code r
           in if scale_unmarshal_fails env then Fail GetScaleUnmarshalError
              else
                (let b = b\<lparr>EstimationScale :=
                            Some (case estimation_scale database (p_estimation_scale_id r) of
                                    Some es \<Rightarrow> es | None \<Rightarrow> zero_scale)\<rparr>;
                     isFacilitator = Contains_str (Facilitators b) userID
                 in case (if joinCode \<noteq> [] then Decrypt cr joinCode (AESHashKey d)
                          else Some (JoinCode b)) of
                      None \<Rightarrow> Fail GetDecodeJoinCodeError
                    | Some jc \<Rightarrow>
                        (case (if facilitatorCode \<noteq> [] \<and> isFacilitator
                               then Decrypt cr facilitatorCode (AESHashKey d)
                               else Some (FacilitatorCode b)) of
                           None \<Rightarrow> Fail GetDecodeLeaderCodeError
                         | Some fc \<Rightarrow>
                             Return (b\<lparr>JoinCode := jc, FacilitatorCode := fc,
                                       Users := GetUsers database pokerID,
                                       Stories := GetStories database pokerID userID\<rparr>)))))"

definition GetGameByID ::
  "crypto \<Rightarrow> Service \<Rightarrow> get_env \<Rightarrow> string \<Rightarrow> string \<Rightarrow> world \<Rightarrow> Poker outcome \<times> world" where
  "GetGameByID cr d env pokerID userID w =
     (case cache_read d env pokerID w of
        (Some game, w1) \<Rightarrow> (Return game, w1)
      | (None, w1) \<Rightarrow>
          (case store_read cr d env pokerID userID (db w1) of
             Return b \<Rightarrow>
               if Redis d
               then (Return b, snd (redis_Set (put_conn env) (game_key pokerID) (marshal_Poker b) w1))
               else (Return b, w1)
           | Fail e \<Rightarrow> (Fail e, w1)
           | Panic p \<Rightarrow> (Panic p, w1)))"

definition encrypt_code :: "crypto \<Rightarrow> string \<Rightarrow> string \<Rightarrow> string option" where
  \<comment> \<open>\<open>if code != "" { ... db.Encrypt(code, d.AESHashKey) ... }\<close>, the empty string otherwise\<close>
  "encrypt_code cr code key = (if code \<noteq> [] then Encrypt cr code key else Some [])"

definition row_of_story :: "string \<Rightarrow> nat \<Rightarrow> Story \<Rightarrow> story_row" where
  \<comment> \<open>the row that the \<open>INSERT INTO thunderdome.poker_story\<close> of loop index \<open>i\<close> writes\<close>
  "row_of_story pokerID i story =
     \<lparr>sr_poker_id = pokerID, sr_name = sName story, sr_type = sType story,
      sr_reference_id = sReferenceID story, sr_link = sLink story,
      sr_description = sDescription story,
      sr_acceptance_criteria = sAcceptanceCriteria story, sr_priority = sPriority story,
      sr_position = int i\<rparr>"

fun insert_stories ::
  "(nat \<Rightarrow> bool) \<Rightarrow> string \<Rightarrow> nat \<Rightarrow> Story list \<Rightarrow> story_row list \<Rightarrow> story_row list option" where
  \<comment> \<open>the loop \<open>for i, story := range stories\<close> from index \<open>i\<close> on, inside the transaction;
      \<open>None\<close> when an insert fails\<close>
  "insert_stories fails pokerID i [] rows = Some rows"
| "insert_stories fails pokerID i (story # rest) rows =
     (if fails i then None
      else insert_stories fails pokerID (Suc i) rest (rows @ [row_of_story pokerID i story]))"

definition CreateGame ::
  "crypto \<Rightarrow> Service \<Rightarrow> create_env \<Rightarrow> get_env \<Rightarrow> string \<Rightarrow> string \<Rightarrow> string \<Rightarrow> string list \<Rightarrow>
   Story list \<Rightarrow> bool \<Rightarrow> string \<Rightarrow> string \<Rightarrow> string \<Rightarrow> bool \<Rightarrow> world \<Rightarrow> Poker outcome \<times> world" where
  \<comment> \<open>The transaction works on a copy \<open>tx\<close> of the store, installed by the commit and
      dropped by a rollback.  When \<open>BeginTx\<close> fails the error is only logged and the nil
      transaction is used.  The id is the one the store allots (\<open>new_id\<close>); the insert
      fails when that key exists.  The elements of \<open>stories\<close> are taken to be non-nil.\<close>
  "CreateGame cr d env genv facilitatorID name estimationScaleID pointValuesAllowed stories
       autoFinishVoting pointAverageRounding joinCode facilitatorCode hideVoterIdentity w =
     (case encrypt_code cr joinCode (AESHashKey d) of
        None \<Rightarrow> (Fail CreateEncryptJoinCodeError, w)
      | Some encryptedJoinCode \<Rightarrow>
     (case encrypt_code cr facilitatorCode (AESHashKey d) of
        None \<Rightarrow> (Fail CreateEncryptLeaderCodeError, w)
      | Some encryptedLeaderCode \<Rightarrow>
     (let b = \<lparr>ID = [], Name = name, Users = [], Stories = [], VotingLocked = True,
               ActiveStoryID = [], PointValuesAllowed = pointValuesAllowed,
               AutoFinishVoting = autoFinishVoting, Facilitators = [] @ [facilitatorID],
               PointAverageRounding = pointAverageRounding,
               HideVoterIdentity = hideVoterIdentity, JoinCode = joinCode,
               FacilitatorCode = facilitatorCode, TeamID = [],
               EstimationScaleID = estimationScaleID, EstimationScale = None,
               CreatedDate = 0, UpdatedDate = 0\<rparr>
      in if begin_fails env then (Panic NilDereference, w)
         else if poker_insert_fails env \<or> poker (db w) (new_id env) \<noteq> None
         then (Fail CreateQueryError, w)
         else
     (let b = b\<lparr>ID := new_id env\<rparr>;
          tx = (db w)\<lparr>poker := (poker (db w))(ID b \<mapsto>
                 \<lparr>p_name = name, p_voting_locked = True, p_active_story_id = [],
                  p_point_values_allowed = pointValuesAllowed,
                  p_auto_finish_voting = autoFinishVoting,
                  p_point_average_rounding = pointAverageRounding,
                  p_hide_voter_identity = hideVoterIdentity,
                  p_join_code = encryptedJoinCode, p_leader_code = encryptedLeaderCode,
                  p_estimation_scale_id = estimationScaleID, p_team_id = [],
                  p_created_date = create_now env, p_updated_date = create_now env\<rparr>)\<rparr>
      in if facilitator_insert_fails env then (Fail CreateFacilitatorError, w)
         else
     (let tx = tx\<lparr>poker_facilitator := poker_facilitator tx @ [(ID b, facilitatorID)]\<rparr>
      in case insert_stories (story_insert_fails env) (ID b) 0 stories (poker_story tx) of
           None \<Rightarrow> (Fail CreateStoryError, w)
         | Some rows \<Rightarrow>
     (let tx = tx\<lparr>poker_story := rows\<rparr>
      in if commit_fails env then (Fail CreateCommitError, w)
         else
     (case GetGameByID cr d genv (ID b) facilitatorID (w\<lparr>db := tx\<rparr>) of
        (Fail e, w2) \<Rightarrow> (Return b, w2)
      | (Panic p, w2) \<Rightarrow> (Panic p, w2)
      | (Return completeGame, w2) \<Rightarrow>
          if Redis d then
            (case redis_Set (set_conn env) (game_key (ID b)) (marshal_Poker completeGame) w2 of
               (False, w3) \<Rightarrow> (Return b, w3)
             | (True, w3) \<Rightarrow> (Return b, snd (redis_Exists (exists_conn env) (game_key (ID b)) w3)))
          else (Return b, w2))))))))"

definition UpdateGame ::
  "crypto \<Rightarrow> Service \<Rightarrow> update_env \<Rightarrow> string \<Rightarrow> string \<Rightarrow> string list \<Rightarrow> bool \<Rightarrow> string \<Rightarrow> bool \<Rightarrow>
   string \<Rightarrow> string \<Rightarrow> string \<Rightarrow> world \<Rightarrow> unit outcome \<times> world" where
  \<comment> \<open>an \<open>UPDATE\<close> whose \<open>WHERE\<close> matches no row changes nothing and is no error\<close>
  "UpdateGame cr d env pokerID name pointValuesAllowed autoFinishVoting pointAverageRounding
       hideVoterIdentity joinCode facilitatorCode teamID w =
     (case encrypt_code cr joinCode (AESHashKey d) of
        None \<Rightarrow> (Fail UpdateEncryptJoinCodeError, w)
      | Some encryptedJoinCode \<Rightarrow>
     (case encrypt_code cr facilitatorCode (AESHashKey d) of
        None \<Rightarrow> (Fail UpdateEncryptLeaderCodeError, w)
      | Some encryptedLeaderCode \<Rightarrow>
          if update_fails env then (Fail UpdateQueryError, w)
          else
            (let w1 = w\<lparr>db := (db w)\<lparr>poker :=
                        (case poker (db w) pokerID of
                           None \<Rightarrow> poker (db w)
                         | Some r \<Rightarrow> (poker (db w))(pokerID \<mapsto>
                             r\<lparr>p_name := name, p_point_values_allowed := pointValuesAllowed,
                               p_auto_finish_voting := autoFinishVoting,
                               p_point_average_rounding := pointAverageRounding,
                               p_hide_voter_identity := hideVoterIdentity,
                               p_join_code := encryptedJoinCode,
                               p_leader_code := encryptedLeaderCode,
                               p_updated_date := update_now env,
                               p_team_id := teamID\<rparr>))\<rparr>\<rparr>
             in if Redis d
                then (Return (), snd (redis_Del (update_del_conn env) (game_key pokerID) w1))
                else (Return (), w1))))"

definition DeleteGame :: "Service \<Rightarrow> delete_env \<Rightarrow> string \<Rightarrow> world \<Rightarrow> unit outcome \<times> world" where
  \<comment> \<open>"removes all game associations and the game itself": the rows of the other tables
      that refer to the session go with it\<close>
  "DeleteGame d env pokerID w =
     (if delete_fails env then (Fail DeleteQueryError, w)
      else
        (let w1 = w\<lparr>db := (db w)\<lparr>poker := (poker (db w))(pokerID := None),
                     poker_facilitator := filter (\<lambda>bl. fst bl \<noteq> pokerID) (poker_facilitator (db w)),
                     poker_story := filter (\<lambda>r. sr_poker_id r \<noteq> pokerID) (poker_story (db w)),
                     poker_user := filter (\<lambda>r. fst r \<noteq> pokerID) (poker_user (db w))\<rparr>\<rparr>
         in if Redis d
            then (Return (), snd (redis_Del (delete_del_conn env) (game_key pokerID) w1))
            else (Return (), w1)))"

section \<open>Notions used in the statements\<close>

definition cached_game :: "Service \<Rightarrow> get_env \<Rightarrow> string \<Rightarrow> world \<Rightarrow> Poker option" where
  \<comment> \<open>the aggregate that a read of the session's cache entry yields: none without a cache
      client, when the read fails, when the key is absent, when the entry does not decode\<close>
  "cached_game d env pokerID w =
     (if Redis d \<and> get_conn env = Up
      then (case cache w (game_key pokerID) of
              Some data \<Rightarrow> unmarshal_Poker data
            | None \<Rightarrow> None)
      else None)"

definition accepted :: "Service \<Rightarrow> get_env \<Rightarrow> string \<Rightarrow> world \<Rightarrow> Poker option" where
  \<comment> \<open>the cached aggregate, when it is structurally complete\<close>
  "accepted d env pokerID w =
     (case cached_game d env pokerID w of
        Some game \<Rightarrow> if structurally_complete game then Some game else None
      | None \<Rightarrow> None)"

definition foreign_keys_ok :: "DB \<Rightarrow> bool" where
  \<comment> \<open>the rows of stories, facilitators and participants refer to sessions that exist\<close>
  "foreign_keys_ok database \<longleftrightarrow>
     list_all (\<lambda>r. poker database (sr_poker_id r) \<noteq> None) (poker_story database) \<and>
     list_all (\<lambda>bl. poker database (fst bl) \<noteq> None) (poker_facilitator database) \<and>
     list_all (\<lambda>r. poker database (fst r) \<noteq> None) (poker_user database)"

section \<open>Concrete inputs\<close>

text \<open>The inputs at which the theorems below are instantiated and evaluated.\<close>

definition toy_crypto :: crypto where
  \<comment> \<open>a stand-in cipher: the key is put in front of the code\<close>
  "toy_crypto =
     \<lparr>Encrypt = (\<lambda>code key. Some (key @ code)),
      Decrypt = (\<lambda>code key. if has_prefix code key then Some (drop (length key) code) else None)\<rparr>"

definition svc :: Service where
  "svc = \<lparr>AESHashKey = ''k'', Redis = True\<rparr>"

definition fibonacci :: EstimationScale where
  "fibonacci =
     \<lparr>es_id = ''scale1'', es_name = ''Fibonacci'', es_description = [],
      es_scale_type = ''fibonacci'', es_values = [''1'', ''2'', ''3'', ''5'', ''8'', ''?''],
      es_created_by = [], es_created_at = 1, es_updated_at = 1, es_is_public = True,
      es_organization_id = [], es_team_id = [], es_default_scale = True\<rparr>"

definition w0 :: world where
  \<comment> \<open>a store with one estimation scale and no session, and an empty cache\<close>
  "w0 = \<lparr>db = \<lparr>poker = Map.empty, poker_facilitator = [], poker_story = [], poker_user = [],
               estimation_scale = [''scale1'' \<mapsto> fibonacci]\<rparr>,
          cache = Map.empty, rlog = []\<rparr>"

definition story1 :: Story where
  "story1 = \<lparr>sName = ''login'', sType = ''story'', sReferenceID = ''T-1'', sLink = [],
             sDescription = [], sAcceptanceCriteria = [], sPriority = 99, sPosition = 0\<rparr>"

definition story2 :: Story where
  "story2 = \<lparr>sName = ''logout'', sType = ''story'', sReferenceID = ''T-2'', sLink = [],
             sDescription = [], sAcceptanceCriteria = [], sPriority = 99, sPosition = 0\<rparr>"

definition create_ok :: create_env where
  "create_ok = \<lparr>begin_fails = False, new_id = ''g1'', create_now = 7, poker_insert_fails = False,
                facilitator_insert_fails = False, story_insert_fails = (\<lambda>i. False),
                commit_fails = False, set_conn = Up, exists_conn = Up\<rparr>"

definition get_ok :: get_env where
  "get_ok = \<lparr>get_conn = Up, query_fails = False, scale_unmarshal_fails = False, put_conn = Up\<rparr>"

definition created :: "Poker outcome \<times> world" where
  \<comment> \<open>alice creates a session with two stories, a join code and a facilitator code\<close>
  "created = CreateGame toy_crypto svc create_ok get_ok ''alice'' ''Sprint'' ''scale1''
               [''1'', ''2'', ''?''] [story1, story2] True ''ceil'' ''join'' ''lead'' False w0"

definition bob :: PokerUser where
  "bob = \<lparr>uID = ''bob'', uName = ''Bob'', uActive = True, uSpectator = False\<rparr>"

definition joined :: world where
  \<comment> \<open>the state after the creation, with bob attached to the session as a participant\<close>
  "joined = (snd created)\<lparr>db := (db (snd created))\<lparr>poker_user := [(''g1'', bob)]\<rparr>\<rparr>"

definition alice_read :: "Poker outcome \<times> world" where
  \<comment> \<open>the facilitator reads the session; the entry cached at creation has no participants,
      so the aggregate is rebuilt and cached\<close>
  "alice_read = GetGameByID toy_crypto svc get_ok ''g1'' ''alice'' joined"

definition facilitator_down :: create_env where
  \<comment> \<open>the insert of the facilitator fails\<close>
  "facilitator_down = create_ok\<lparr>facilitator_insert_fails := True\<rparr>"


definition update_up :: update_env where
  "update_up = \<lparr>update_fails = False, update_now = 9, update_del_conn = Up\<rparr>"

definition update_down :: update_env where
  \<comment> \<open>the update reaches the store, the delete does not reach the cache\<close>
  "update_down = \<lparr>update_fails = False, update_now = 9, update_del_conn = Down\<rparr>"

definition delete_up :: delete_env where
  "delete_up = \<lparr>delete_fails = False, delete_del_conn = Up\<rparr>"

definition renamed :: "update_env \<Rightarrow> unit outcome \<times> world" where
  \<comment> \<open>after the facilitator's read, the session is renamed and its codes are cleared\<close>
  "renamed env = UpdateGame toy_crypto svc env ''g1'' ''Renamed'' [''1'', ''2'', ''?''] True
                   ''ceil'' False [] [] [] (snd alice_read)"

definition reply_with_stray_object :: string where
  \<comment> \<open>a model reply: U+70B9 U+6570, a colon, a space, the digit 5, and an empty JSON object\<close>
  "reply_with_stray_object = lit_points @ ''5{}''"

definition decode_empty_object :: "string \<Rightarrow> PointSuggestionResponse option" where
  \<comment> \<open>\<open>json.Unmarshal\<close> as far as the reply above needs it: the text \<open>{}\<close> decodes, with no
      error, to the response whose fields are empty\<close>
  "decode_empty_object s =
     (if s = ''{}'' then Some \<lparr>SuggestedPoint = [], Reason = []\<rparr> else None)"

definition ascii_lib :: golib where
  "ascii_lib = \<lparr>ToLower = asciiToLower, Unmarshal = decode_empty_object\<rparr>"

definition alice_view :: Poker where
  \<comment> \<open>the aggregate of the session as the store holds it, read by the facilitator\<close>
  "alice_view =
     \<lparr>ID = ''g1'', Name = ''Sprint'', Users = [bob],
      Stories = [story1\<lparr>sPosition := 0\<rparr>, story2\<lparr>sPosition := 1\<rparr>], VotingLocked = True,
      ActiveStoryID = [], PointValuesAllowed = [''1'', ''2'', ''?''], AutoFinishVoting = True,
      Facilitators = [''alice''], PointAverageRounding = ''ceil'', HideVoterIdentity = False,
      JoinCode = ''join'', FacilitatorCode = ''lead'', TeamID = [],
      EstimationScaleID = ''scale1'', EstimationScale = Some fibonacci,
      CreatedDate = 7, UpdatedDate = 7\<rparr>"

definition one_story_view :: Poker where
  \<comment> \<open>the same aggregate with the first only of its two stories\<close>
  "one_story_view = alice_view\<lparr>Stories := [story1\<lparr>sPosition := 0\<rparr>]\<rparr>"

definition truncated :: world where
  \<comment> \<open>the store holds the session with its two stories; the cache entry of the session holds
      one of them\<close>
  "truncated = joined\<lparr>cache := [game_key ''g1'' \<mapsto> Snapshot one_story_view]\<rparr>"

definition put_down :: get_env where
  \<comment> \<open>the read of the cache succeeds, the write of the rebuilt aggregate does not reach it\<close>
  "put_down = get_ok\<lparr>put_conn := Down\<rparr>"

definition begin_down :: create_env where
  \<comment> \<open>the store is unreachable: the transaction cannot be begun, no insert can succeed\<close>
  "begin_down = create_ok\<lparr>begin_fails := True, poker_insert_fails := True\<rparr>"

definition renamed_absent :: "unit outcome \<times> world" where
  \<comment> \<open>the same update for an id that no session has\<close>
  "renamed_absent = UpdateGame toy_crypto svc update_up ''g9'' ''Renamed'' [''1'', ''2'', ''?''] True
                      ''ceil'' False [] [] [] (snd alice_read)"

section \<open>The store is only changed by the store's own statements\<close>

lemma cache_read_db: "db (snd (cache_read d env pokerID w)) = db w"
  by (simp add: cache_read_def redis_Get_def split: option.splits)

lemma GetGameByID_db: "db (snd (GetGameByID cr d env pokerID userID w)) = db w"
  by (auto simp: GetGameByID_def cache_read_def redis_Get_def redis_Set_def
      split: option.splits outcome.splits conn.splits prod.splits)

lemma GetGameByID_dbD: "GetGameByID cr d env pokerID userID w = (r, w') \<Longrightarrow> db w' = db w"
  using GetGameByID_db [of cr d env pokerID userID w] by simp

lemma insert_stories_None:
  "insert_stories fails pid i stories rows = None \<longleftrightarrow> (\<exists>j < length stories. fails (i + j))"
proof (induction stories arbitrary: i rows)
  case Nil
  then show ?case by simp
next
  case (Cons s ss)
  show ?case
  proof (cases "fails i")
    case True
    then show ?thesis by auto
  next
    case False
    have "(\<exists>j < length (s # ss). fails (i + j)) \<longleftrightarrow> (\<exists>j < length ss. fails (Suc i + j))"
      using False by (auto simp: less_Suc_eq_0_disj)
    with False Cons show ?thesis by simp
  qed
qed

lemma insert_stories_Some:
  "insert_stories fails pid i stories rows = Some rows' \<Longrightarrow>
   rows' = rows @ map (\<lambda>(j, s). row_of_story pid j s) (enumerate i stories)"
proof (induction stories arbitrary: i rows)
  case Nil
  then show ?case by simp
next
  case (Cons s ss)
  from Cons.prems have nf: "\<not> fails i"
    and rec: "insert_stories fails pid (Suc i) ss (rows @ [row_of_story pid i s]) = Some rows'"
    by (auto split: if_splits)
  from Cons.IH [OF rec] show ?case by simp
qed

lemma positions_enumerate:
  "map sr_position (map (\<lambda>(j, s). row_of_story pid j s) (enumerate i stories)) =
   map int [i ..< i + length stories]"
  by (induction stories arbitrary: i) (auto simp: row_of_story_def upt_rec)

section \<open>The two ways through \<open>GetGameByID\<close>\<close>

lemma fst_cache_read: "fst (cache_read d env pokerID w) = accepted d env pokerID w"
  by (auto simp: cache_read_def accepted_def cached_game_def redis_Get_def
      split: option.splits conn.splits)

lemma snd_cache_read:
  "snd (cache_read d env pokerID w) =
     (if Redis d then w\<lparr>rlog := rlog w @ [GET (game_key pokerID)]\<rparr> else w)"
  by (auto simp: cache_read_def redis_Get_def split: option.splits conn.splits)

lemma GetGameByID_hit:
  "accepted d env pokerID w = Some game \<Longrightarrow>
   GetGameByID cr d env pokerID userID w = (Return game, snd (cache_read d env pokerID w))"
  using fst_cache_read [of d env pokerID w]
  by (cases "cache_read d env pokerID w") (simp add: GetGameByID_def)

lemma GetGameByID_miss:
  "accepted d env pokerID w = None \<Longrightarrow>
   GetGameByID cr d env pokerID userID w =
     (store_read cr d env pokerID userID (db w),
      (case store_read cr d env pokerID userID (db w) of
         Return b \<Rightarrow>
           if Redis d
           then snd (redis_Set (put_conn env) (game_key pokerID) (marshal_Poker b)
                  (snd (cache_read d env pokerID w)))
           else snd (cache_read d env pokerID w)
       | _ \<Rightarrow> snd (cache_read d env pokerID w)))"
  using fst_cache_read [of d env pokerID w] cache_read_db [of d env pokerID w]
  by (cases "cache_read d env pokerID w") (auto simp: GetGameByID_def split: outcome.splits)








section \<open>What \<open>CreateGame\<close> returns and leaves behind\<close>

lemma CreateGame_Fail_unchanged:
  assumes "CreateGame cr d env genv facilitatorID name estimationScaleID pointValuesAllowed stories
       autoFinishVoting pointAverageRounding joinCode facilitatorCode hideVoterIdentity w = (Fail e, w')"
  shows "w' = w"
  using assms unfolding CreateGame_def Let_def
  by (auto split: option.splits if_splits prod.splits outcome.splits bool.splits)

lemma CreateGame_Return:
  assumes "CreateGame cr d env genv facilitatorID name estimationScaleID pointValuesAllowed stories
       autoFinishVoting pointAverageRounding joinCode facilitatorCode hideVoterIdentity w = (Return g, w')"
  shows "\<exists>ej el rows.
           encrypt_code cr joinCode (AESHashKey d) = Some ej \<and>
           encrypt_code cr facilitatorCode (AESHashKey d) = Some el \<and>
           \<not> begin_fails env \<and> \<not> poker_insert_fails env \<and> poker (db w) (new_id env) = None \<and>
           \<not> facilitator_insert_fails env \<and>
           insert_stories (story_insert_fails env) (new_id env) 0 stories (poker_story (db w)) = Some rows \<and>
           \<not> commit_fails env \<and>
           g = \<lparr>ID = new_id env, Name = name, Users = [], Stories = [], VotingLocked = True,
               ActiveStoryID = [], PointValuesAllowed = pointValuesAllowed,
               AutoFinishVoting = autoFinishVoting, Facilitators = [facilitatorID],
               PointAverageRounding = pointAverageRounding,
               HideVoterIdentity = hideVoterIdentity, JoinCode = joinCode,
               FacilitatorCode = facilitatorCode, TeamID = [],
               EstimationScaleID = estimationScaleID, EstimationScale = None,
               CreatedDate = 0, UpdatedDate = 0\<rparr> \<and>
           db w' = (db w)\<lparr>poker := (poker (db w))(new_id env \<mapsto>
                 \<lparr>p_name = name, p_voting_locked = True, p_active_story_id = [],
                  p_point_values_allowed = pointValuesAllowed,
                  p_auto_finish_voting = autoFinishVoting,
                  p_point_average_rounding = pointAverageRounding,
                  p_hide_voter_identity = hideVoterIdentity,
                  p_join_code = ej, p_leader_code = el,
                  p_estimation_scale_id = estimationScaleID, p_team_id = [],
                  p_created_date = create_now env, p_updated_date = create_now env\<rparr>),
               poker_facilitator := poker_facilitator (db w) @ [(new_id env, facilitatorID)],
               poker_story := rows\<rparr>"
  using assms unfolding CreateGame_def Let_def
  by (auto split: option.splits if_splits prod.splits outcome.splits bool.splits
      simp: redis_Set_def redis_Exists_def split: conn.splits dest!: GetGameByID_dbD)


lemma CreateGame_story_rows:
  assumes "CreateGame cr d env genv facilitatorID name estimationScaleID pointValuesAllowed
            stories autoFinishVoting pointAverageRounding joinCode facilitatorCode
            hideVoterIdentity w = (Return g, w')"
    and "foreign_keys_ok (db w)"
  shows "filter (\<lambda>r. sr_poker_id r = new_id env) (poker_story (db w')) =
           map (\<lambda>(i, s). row_of_story (new_id env) i s) (enumerate 0 stories)"
proof -
  from CreateGame_Return [OF assms(1)] obtain rows where
    fresh: "poker (db w) (new_id env) = None"
    and rows: "insert_stories (story_insert_fails env) (new_id env) 0 stories (poker_story (db w)) = Some rows"
    and st: "poker_story (db w') = rows"
    by auto
  let ?new = "map (\<lambda>(i, s). row_of_story (new_id env) i s) (enumerate 0 stories)"
  from insert_stories_Some [OF rows] have rows_eq: "rows = poker_story (db w) @ ?new" .
  have old: "filter (\<lambda>r. sr_poker_id r = new_id env) (poker_story (db w)) = []"
    using assms(2) fresh by (auto simp: filter_empty_conv foreign_keys_ok_def list_all_iff)
  have new: "filter (\<lambda>r. sr_poker_id r = new_id env) ?new = ?new"
    by (auto simp: filter_id_conv row_of_story_def)
  show ?thesis by (simp add: st rows_eq old new)
qed

section \<open>The commands sent to the cache\<close>

lemma rlog_GetGameByID:
  "\<exists>xs. rlog (snd (GetGameByID cr d env pokerID userID w)) = rlog w @ xs \<and>
        (\<forall>c \<in> set xs. cmd_key c = game_key pokerID)"
  by (cases "accepted d env pokerID w")
     (auto simp: GetGameByID_miss GetGameByID_hit snd_cache_read redis_Set_def
       split: outcome.splits conn.splits)

lemma rlog_CreateGame:
  "\<exists>xs. rlog (snd (CreateGame cr d env genv facilitatorID name estimationScaleID
            pointValuesAllowed stories autoFinishVoting pointAverageRounding joinCode
            facilitatorCode hideVoterIdentity w)) = rlog w @ xs \<and>
        (\<forall>c \<in> set xs. cmd_key c = game_key (new_id env))"
proof -
  have get: "\<exists>xs. rlog w2 = rlog w @ xs \<and> (\<forall>c \<in> set xs. cmd_key c = game_key (new_id env))"
    if "GetGameByID cr d genv (new_id env) facilitatorID (w\<lparr>db := tx\<rparr>) = (r, w2)" for tx r w2
    using rlog_GetGameByID [of cr d genv "new_id env" facilitatorID "w\<lparr>db := tx\<rparr>"] that
    by simp
  show ?thesis
    unfolding CreateGame_def Let_def
    by (auto split: option.splits prod.splits outcome.splits bool.splits
        simp: redis_Set_def redis_Exists_def split: conn.splits dest!: get)
qed

lemma rlog_UpdateGame:
  "\<exists>xs. rlog (snd (UpdateGame cr d env pokerID name pointValuesAllowed autoFinishVoting
            pointAverageRounding hideVoterIdentity joinCode facilitatorCode teamID w)) = rlog w @ xs \<and>
        (\<forall>c \<in> set xs. cmd_key c = game_key pokerID)"
  by (auto simp: UpdateGame_def Let_def redis_Del_def split: option.splits conn.splits)

lemma rlog_DeleteGame:
  "\<exists>xs. rlog (snd (DeleteGame d env pokerID w)) = rlog w @ xs \<and>
        (\<forall>c \<in> set xs. cmd_key c = game_key pokerID)"
  by (auto simp: DeleteGame_def Let_def redis_Del_def split: option.splits conn.splits)

lemma game_key_GenerateCacheKey: "game_key pokerID = GenerateCacheKey KeyPrefixGame pokerID []"
  by (simp add: game_key_def GenerateCacheKey_def KeyPrefixGame_def)

section \<open>Evaluation of the concrete inputs\<close>

lemmas example_defs =
  created_def joined_def alice_read_def alice_view_def one_story_view_def truncated_def
  put_down_def begin_down_def renamed_absent_def toy_crypto_def svc_def w0_def story1_def story2_def
  create_ok_def get_ok_def bob_def fibonacci_def

lemmas eval_defs =
  CreateGame_def GetGameByID_def UpdateGame_def DeleteGame_def cache_read_def store_read_def
  redis_Get_def redis_Set_def redis_Exists_def redis_Del_def GetUsers_def GetStories_def
  story_of_row_def row_of_story_def encrypt_code_def game_key_def marshal_Poker_def
  unmarshal_Poker_def Contains_str_def has_prefix_def zero_scale_def structurally_complete_def
  cached_game_def accepted_def issued_def foreign_keys_ok_def Let_def

section \<open>Reading a session\<close>




section \<open>Creating a session\<close>

text \<open>
  When the transaction has begun and one of its writes fails (the insert of the session
  row, also by a clash of the allotted id; the insert of the facilitator; the insert of
  one of the initial stories), \<open>CreateGame\<close> returns an error and the whole state is what
  it was before the call: nothing of the session is in the store, no command has been
  sent to the cache, no cache entry has been written.
\<close>

lemma CreateGame_write_failure_rolls_back:
  assumes "\<not> begin_fails env"
    and "poker_insert_fails env \<or> poker (db w) (new_id env) \<noteq> None \<or>
         facilitator_insert_fails env \<or> (\<exists>i < length stories. story_insert_fails env i)"
  shows "\<exists>e. CreateGame cr d env genv facilitatorID name estimationScaleID pointValuesAllowed
            stories autoFinishVoting pointAverageRounding joinCode facilitatorCode
            hideVoterIdentity w = (Fail e, w)"
proof -
  let ?res = "CreateGame cr d env genv facilitatorID name estimationScaleID pointValuesAllowed
            stories autoFinishVoting pointAverageRounding joinCode facilitatorCode
            hideVoterIdentity w"
  have "\<exists>e. fst ?res = Fail e"
  proof (cases "\<exists>i < length stories. story_insert_fails env i")
    case True
    then have "insert_stories (story_insert_fails env) pid 0 stories rows = None" for pid rows
      by (simp add: insert_stories_None)
    then show ?thesis
      using assms(1) unfolding CreateGame_def Let_def
      by (auto split: option.splits)
  next
    case False
    with assms show ?thesis
      unfolding CreateGame_def Let_def
      by (auto split: option.splits)
  qed
  then obtain e where "fst ?res = Fail e" ..
  then have "?res = (Fail e, snd ?res)" by (metis prod.collapse)
  moreover from this have "snd ?res = w" by (rule CreateGame_Fail_unchanged)
  ultimately show ?thesis by auto
qed

text \<open>
  When the transaction cannot be begun, the error of \<open>BeginTx\<close> is logged and not
  returned, and the insert of the session row is called on the nil transaction: with the
  codes encrypted, \<open>CreateGame\<close> panics, whatever the inserts would have done.  Nothing is
  persisted and nothing is sent to the cache.
\<close>

lemma CreateGame_begin_failure_panics:
  assumes "begin_fails env"
    and "encrypt_code cr joinCode (AESHashKey d) \<noteq> None"
    and "encrypt_code cr facilitatorCode (AESHashKey d) \<noteq> None"
  shows "CreateGame cr d env genv facilitatorID name estimationScaleID pointValuesAllowed
            stories autoFinishVoting pointAverageRounding joinCode facilitatorCode
            hideVoterIdentity w = (Panic NilDereference, w)"
  using assms unfolding CreateGame_def Let_def
  by (auto split: option.splits)

text \<open>
  C3: if a durable-store write inside \<open>CreateGame\<close> fails, the creation is rolled back and
  \<open>CreateGame\<close> returns an error, with no partial session persisted and no cache entry
  written.  The code breaks this when the store is unreachable: the transaction cannot be
  begun, the insert of the session row cannot succeed, and \<open>CreateGame\<close> does not return
  an error but panics on the nil transaction (store and cache are left as they were).
\<close>

theorem CreateGame_panics_when_begin_fails:
  "begin_fails begin_down \<and> poker_insert_fails begin_down \<and>
   CreateGame toy_crypto svc begin_down get_ok ''alice'' ''Sprint'' ''scale1''
     [''1'', ''2'', ''?''] [story1, story2] True ''ceil'' ''join'' ''lead'' False w0 =
   (Panic NilDereference, w0)"
  by (simp add: begin_down_def create_ok_def CreateGame_def encrypt_code_def toy_crypto_def
      svc_def Let_def)

text \<open>
  C9.  After a successful \<open>CreateGame\<close> on a store whose rows refer to existing sessions,
  the story rows of the new session are exactly the supplied stories in the supplied
  order, each at the position of its index: the positions are \<open>0, ..., n-1\<close>, pairwise
  distinct.
\<close>

theorem CreateGame_story_positions:
  assumes "CreateGame cr d env genv facilitatorID name estimationScaleID pointValuesAllowed
            stories autoFinishVoting pointAverageRounding joinCode facilitatorCode
            hideVoterIdentity w = (Return g, w')"
    and "foreign_keys_ok (db w)"
  shows "filter (\<lambda>r. sr_poker_id r = ID g) (poker_story (db w')) =
           map (\<lambda>(i, s). row_of_story (ID g) i s) (enumerate 0 stories) \<and>
         map sr_position (filter (\<lambda>r. sr_poker_id r = ID g) (poker_story (db w'))) =
           map int [0 ..< length stories] \<and>
         distinct (map sr_position (filter (\<lambda>r. sr_poker_id r = ID g) (poker_story (db w'))))"
proof -
  from CreateGame_Return [OF assms(1)] have g: "ID g = new_id env"
    by auto
  let ?new = "map (\<lambda>(i, s). row_of_story (new_id env) i s) (enumerate 0 stories)"
  have 1: "filter (\<lambda>r. sr_poker_id r = ID g) (poker_story (db w')) = ?new"
    using CreateGame_story_rows [OF assms] by (simp add: g)
  have 2: "map sr_position ?new = map int [0 ..< length stories]"
    using positions_enumerate [of "new_id env" 0 stories] by simp
  have 3: "distinct (map int [0 ..< length stories])"
    by (simp add: distinct_map)
  from 1 2 3 show ?thesis by (simp add: g)
qed

theorem CreateGame_story_positions_witness:
  "foreign_keys_ok (db w0) \<and> map_outcome ID (fst created) = Return ''g1'' \<and>
   map sr_position (filter (\<lambda>r. sr_poker_id r = ''g1'') (poker_story (db (snd created)))) = [0, 1]"
proof -
  have fk: "foreign_keys_ok (db w0)"
    by (simp add: w0_def foreign_keys_ok_def)
  obtain g where g: "fst created = Return g" and gid: "ID g = ''g1''"
    by (simp add: example_defs eval_defs)
  then have eq: "CreateGame toy_crypto svc create_ok get_ok ''alice'' ''Sprint'' ''scale1''
               [''1'', ''2'', ''?''] [story1, story2] True ''ceil'' ''join'' ''lead'' False w0 =
               (Return g, snd created)"
    by (metis created_def prod.collapse)
  have "map int [0 ..< length [story1, story2]] = [0, 1]"
    by (simp add: upt_rec)
  with CreateGame_story_positions [OF eq fk] fk g gid show ?thesis
    by (simp add: row_of_story_def)
qed

section \<open>Invalidation\<close>

text \<open>
  C7.  Invalidating twice is invalidating once: with the client initialised and the
  commands reaching Redis, \<open>redis.Delete\<close> returns a nil error the first time and again
  the second time, when the key is already absent, and the cache (and the store) after
  the second call are what they were after the first.
\<close>

theorem Delete_idempotent:
  "fst (Delete True Up key w) = Return None \<and>
   fst (Delete True Up key (snd (Delete True Up key w))) = Return None \<and>
   cache (snd (Delete True Up key w)) key = None \<and>
   cache (snd (Delete True Up key (snd (Delete True Up key w)))) = cache (snd (Delete True Up key w)) \<and>
   db (snd (Delete True Up key (snd (Delete True Up key w)))) = db (snd (Delete True Up key w))"
  by (simp add: Delete_def redis_Del_def)

section \<open>Updating a session\<close>

text \<open>
  C4, as stated, fails, in two ways.  The facilitator's read has cached the session; the
  session is then renamed while the delete does not reach the cache: \<open>UpdateGame\<close>
  reports success and the store has the new name, but the cache entry is still the one
  from before, and the next read returns the old name from it.  And an update for an id
  that no session has reports success too, while nothing is persisted: the store is what
  it was.
\<close>

theorem UpdateGame_failed_delete_keeps_entry:
  "fst (renamed update_down) = Return () \<and>
   map_option p_name (poker (db (snd (renamed update_down))) ''g1'') = Some ''Renamed'' \<and>
   cache (snd (renamed update_down)) (game_key ''g1'') \<noteq> None \<and>
   cache (snd (renamed update_down)) (game_key ''g1'') = cache (snd alice_read) (game_key ''g1'') \<and>
   map_outcome Name
     (fst (GetGameByID toy_crypto svc get_ok ''g1'' ''alice'' (snd (renamed update_down)))) =
     Return ''Sprint'' \<and>
   poker (db (snd alice_read)) ''g9'' = None \<and>
   fst renamed_absent = Return () \<and>
   db (snd renamed_absent) = db (snd alice_read)"
proof -
  have 1: "fst (renamed update_down) = Return () \<and>
   map_option p_name (poker (db (snd (renamed update_down))) ''g1'') = Some ''Renamed'' \<and>
   cache (snd (renamed update_down)) (game_key ''g1'') \<noteq> None \<and>
   cache (snd (renamed update_down)) (game_key ''g1'') = cache (snd alice_read) (game_key ''g1'') \<and>
   map_outcome Name
     (fst (GetGameByID toy_crypto svc get_ok ''g1'' ''alice'' (snd (renamed update_down)))) =
     Return ''Sprint''"
    by (simp add: renamed_def update_down_def example_defs eval_defs)
  have 2: "poker (db (snd alice_read)) ''g9'' = None"
    by (simp add: example_defs eval_defs)
  have db: "db (snd alice_read) = db joined"
    by (simp add: alice_read_def GetGameByID_db)
  have 3: "fst renamed_absent = Return ()"
    by (simp add: renamed_absent_def UpdateGame_def encrypt_code_def update_up_def Let_def
        svc_def)
  have 4: "db (snd renamed_absent) = db (snd alice_read)"
    using 2
    by (simp add: renamed_absent_def UpdateGame_def encrypt_code_def update_up_def Let_def
        svc_def redis_Del_def)
  from 1 2 3 4 show ?thesis by blast
qed

text \<open>
  C4, amended.  Every successful \<open>UpdateGame\<close> leaves the store as follows: when the
  session has a row, that row has the given fields (name, point values, auto-finish flag,
  rounding, hide-voter flag, team, the time of the update, and the two codes, each
  encrypted when it is not empty and empty otherwise) and nothing else of the store is
  changed; when no session has the id, the store is unchanged (the update still reports
  success).  With a cache client exactly one command is sent to the cache, the delete of
  the session's key, and its result is ignored: when it succeeds the entry is removed and
  no other key is touched, when it fails the cache is unchanged.  Without a cache client
  no command is sent and the cache is unchanged.  \<open>UpdateGame\<close> writes no cache entry.
\<close>

theorem UpdateGame_persists_and_invalidates:
  assumes "UpdateGame cr d env pokerID name pointValuesAllowed autoFinishVoting
             pointAverageRounding hideVoterIdentity joinCode facilitatorCode teamID w = (Return (), w')"
  shows "(\<exists>ej el. (joinCode = [] \<longrightarrow> ej = []) \<and>
                  (joinCode \<noteq> [] \<longrightarrow> Encrypt cr joinCode (AESHashKey d) = Some ej) \<and>
                  (facilitatorCode = [] \<longrightarrow> el = []) \<and>
                  (facilitatorCode \<noteq> [] \<longrightarrow>
                     Encrypt cr facilitatorCode (AESHashKey d) = Some el) \<and>
                  (\<forall>r. poker (db w) pokerID = Some r \<longrightarrow>
                     db w' = (db w)\<lparr>poker := (poker (db w))(pokerID \<mapsto>
                       r\<lparr>p_name := name, p_point_values_allowed := pointValuesAllowed,
                         p_auto_finish_voting := autoFinishVoting,
                         p_point_average_rounding := pointAverageRounding,
                         p_hide_voter_identity := hideVoterIdentity,
                         p_join_code := ej, p_leader_code := el,
                         p_updated_date := update_now env, p_team_id := teamID\<rparr>)\<rparr>)) \<and>
         (poker (db w) pokerID = None \<longrightarrow> db w' = db w) \<and>
         (Redis d \<longrightarrow> issued w w' = [DEL (''game:'' @ pokerID)]) \<and>
         (Redis d \<and> update_del_conn env = Up \<longrightarrow>
            cache w' = (cache w)(''game:'' @ pokerID := None)) \<and>
         (Redis d \<and> update_del_conn env = Down \<longrightarrow> cache w' = cache w) \<and>
         (\<not> Redis d \<longrightarrow> issued w w' = [] \<and> cache w' = cache w) \<and>
         (\<forall>c \<in> set (issued w w'). \<not> is_SET c)"
proof -
  from assms obtain ej el where
    ej: "encrypt_code cr joinCode (AESHashKey d) = Some ej"
    and el: "encrypt_code cr facilitatorCode (AESHashKey d) = Some el"
    by (auto simp: UpdateGame_def split: option.splits)
  have codes: "(joinCode = [] \<longrightarrow> ej = []) \<and>
      (joinCode \<noteq> [] \<longrightarrow> Encrypt cr joinCode (AESHashKey d) = Some ej) \<and>
      (facilitatorCode = [] \<longrightarrow> el = []) \<and>
      (facilitatorCode \<noteq> [] \<longrightarrow> Encrypt cr facilitatorCode (AESHashKey d) = Some el)"
    using ej el by (auto simp: encrypt_code_def split: if_splits)
  have row: "\<forall>r. poker (db w) pokerID = Some r \<longrightarrow>
                     db w' = (db w)\<lparr>poker := (poker (db w))(pokerID \<mapsto>
                       r\<lparr>p_name := name, p_point_values_allowed := pointValuesAllowed,
                         p_auto_finish_voting := autoFinishVoting,
                         p_point_average_rounding := pointAverageRounding,
                         p_hide_voter_identity := hideVoterIdentity,
                         p_join_code := ej, p_leader_code := el,
                         p_updated_date := update_now env, p_team_id := teamID\<rparr>)\<rparr>"
    using assms ej el
    by (auto simp: UpdateGame_def Let_def redis_Del_def split: if_splits conn.splits)
  have rest: "(poker (db w) pokerID = None \<longrightarrow> db w' = db w) \<and>
         (Redis d \<longrightarrow> issued w w' = [DEL (''game:'' @ pokerID)]) \<and>
         (Redis d \<and> update_del_conn env = Up \<longrightarrow>
            cache w' = (cache w)(''game:'' @ pokerID := None)) \<and>
         (Redis d \<and> update_del_conn env = Down \<longrightarrow> cache w' = cache w) \<and>
         (\<not> Redis d \<longrightarrow> issued w w' = [] \<and> cache w' = cache w) \<and>
         (\<forall>c \<in> set (issued w w'). \<not> is_SET c)"
    using assms ej el
    by (auto simp: UpdateGame_def Let_def redis_Del_def issued_def game_key_def
        split: if_splits conn.splits)
  from codes row rest show ?thesis by blast
qed

theorem UpdateGame_persists_and_invalidates_witness:
  "fst (renamed update_up) = Return () \<and> Redis svc \<and> update_del_conn update_up = Up \<and>
   poker (db (snd alice_read)) ''g1'' \<noteq> None \<and>
   cache (snd alice_read) (''game:'' @ ''g1'') \<noteq> None \<and>
   map_option p_name (poker (db (snd (renamed update_up))) ''g1'') = Some ''Renamed'' \<and>
   issued (snd alice_read) (snd (renamed update_up)) = [DEL (''game:'' @ ''g1'')] \<and>
   cache (snd (renamed update_up)) = (cache (snd alice_read))(''game:'' @ ''g1'' := None) \<and>
   poker (db (snd alice_read)) ''g9'' = None \<and> fst renamed_absent = Return () \<and>
   db (snd renamed_absent) = db (snd alice_read)"
proof -
  have ok: "fst (renamed update_up) = Return ()"
    by (simp add: renamed_def update_up_def example_defs eval_defs)
  then have eq: "UpdateGame toy_crypto svc update_up ''g1'' ''Renamed'' [''1'', ''2'', ''?''] True
                   ''ceil'' False [] [] [] (snd alice_read) = (Return (), snd (renamed update_up))"
    by (metis renamed_def prod.collapse)
  have pre: "Redis svc" "update_del_conn update_up = Up"
    by (simp_all add: svc_def update_up_def)
  obtain r where r: "poker (db (snd alice_read)) ''g1'' = Some r"
    by (simp add: example_defs eval_defs)
  have c: "cache (snd alice_read) (''game:'' @ ''g1'') \<noteq> None"
    by (simp add: example_defs eval_defs)
  from UpdateGame_persists_and_invalidates [OF eq] pre r
  have "map_option p_name (poker (db (snd (renamed update_up))) ''g1'') = Some ''Renamed''"
    and "issued (snd alice_read) (snd (renamed update_up)) = [DEL (''game:'' @ ''g1'')]"
    and "cache (snd (renamed update_up)) = (cache (snd alice_read))(''game:'' @ ''g1'' := None)"
    by auto
  moreover have none: "poker (db (snd alice_read)) ''g9'' = None"
    by (simp add: example_defs eval_defs)
  have ok2: "fst renamed_absent = Return ()"
    by (simp add: renamed_absent_def UpdateGame_def encrypt_code_def update_up_def Let_def
        svc_def)
  then have eq2: "UpdateGame toy_crypto svc update_up ''g9'' ''Renamed'' [''1'', ''2'', ''?''] True
                   ''ceil'' False [] [] [] (snd alice_read) = (Return (), snd renamed_absent)"
    by (metis renamed_absent_def prod.collapse)
  from UpdateGame_persists_and_invalidates [OF eq2] none
  have "db (snd renamed_absent) = db (snd alice_read)"
    by blast
  ultimately show ?thesis using ok pre r c none ok2 by simp
qed

section \<open>Cache failures\<close>



section \<open>The cache key\<close>

text \<open>
  C6, as stated, fails: the key is not \<open>"session:"\<close> followed by the session id.  The
  delete of session \<open>42\<close> sends one command to the cache, for the key \<open>game:42\<close>.
\<close>

theorem cache_key_is_not_session_prefixed:
  "issued w0 (snd (DeleteGame svc delete_up ''42'' w0)) = [DEL ''game:42''] \<and>
   cmd_key (DEL ''game:42'') \<noteq> ''session:'' @ ''42''"
  by (simp add: delete_up_def example_defs eval_defs)

text \<open>
  C6, amended.  Every command that creation, read, update and delete send to the cache
  (\<open>GET\<close>, \<open>SET\<close>, \<open>DEL\<close>, \<open>EXISTS\<close>) is for the key formed as the string \<open>"game:"\<close>
  followed by the session id, the same in all four.
\<close>

theorem cache_ops_use_game_key:
  "(\<forall>c \<in> set (issued w (snd (GetGameByID cr d genv pokerID userID w))).
       cmd_key c = ''game:'' @ pokerID) \<and>
   (\<forall>c \<in> set (issued w (snd (CreateGame cr d cenv genv facilitatorID name estimationScaleID
            pointValuesAllowed stories autoFinishVoting pointAverageRounding joinCode
            facilitatorCode hideVoterIdentity w))).
       cmd_key c = ''game:'' @ new_id cenv) \<and>
   (\<forall>c \<in> set (issued w (snd (UpdateGame cr d uenv pokerID name pointValuesAllowed
            autoFinishVoting pointAverageRounding hideVoterIdentity joinCode facilitatorCode
            teamID w))).
       cmd_key c = ''game:'' @ pokerID) \<and>
   (\<forall>c \<in> set (issued w (snd (DeleteGame d denv pokerID w))). cmd_key c = ''game:'' @ pokerID)"
proof (intro conjI)
  show "\<forall>c \<in> set (issued w (snd (GetGameByID cr d genv pokerID userID w))).
       cmd_key c = ''game:'' @ pokerID"
    using rlog_GetGameByID [of cr d genv pokerID userID w]
    by (auto simp: issued_def game_key_def)
  show "\<forall>c \<in> set (issued w (snd (CreateGame cr d cenv genv facilitatorID name estimationScaleID
            pointValuesAllowed stories autoFinishVoting pointAverageRounding joinCode
            facilitatorCode hideVoterIdentity w))).
       cmd_key c = ''game:'' @ new_id cenv"
    using rlog_CreateGame [of cr d cenv genv facilitatorID name estimationScaleID
            pointValuesAllowed stories autoFinishVoting pointAverageRounding joinCode
            facilitatorCode hideVoterIdentity w]
    by (auto simp: issued_def game_key_def)
  show "\<forall>c \<in> set (issued w (snd (UpdateGame cr d uenv pokerID name pointValuesAllowed
            autoFinishVoting pointAverageRounding hideVoterIdentity joinCode facilitatorCode
            teamID w))).
       cmd_key c = ''game:'' @ pokerID"
    using rlog_UpdateGame [of cr d uenv pokerID name pointValuesAllowed
            autoFinishVoting pointAverageRounding hideVoterIdentity joinCode facilitatorCode
            teamID w]
    by (auto simp: issued_def game_key_def)
  show "\<forall>c \<in> set (issued w (snd (DeleteGame d denv pokerID w))). cmd_key c = ''game:'' @ pokerID"
    using rlog_DeleteGame [of d denv pokerID w]
    by (auto simp: issued_def game_key_def)
qed

theorem cache_ops_use_game_key_witness:
  "map cmd_key (issued w0 (snd created)) = [''game:g1'', ''game:g1'', ''game:g1'', ''game:g1''] \<and>
   map cmd_key (issued joined (snd alice_read)) = [''game:g1'', ''game:g1''] \<and>
   map cmd_key (issued (snd alice_read) (snd (renamed update_up))) = [''game:g1'']"
proof -
  have 1: "length (issued w0 (snd created)) = 4"
    by (simp add: example_defs eval_defs)
  have 2: "length (issued joined (snd alice_read)) = 2"
    by (simp add: example_defs eval_defs)
  have 3: "length (issued (snd alice_read) (snd (renamed update_up))) = 1"
    by (simp add: renamed_def update_up_def example_defs eval_defs)
  have k: "length xs = n \<Longrightarrow> \<forall>c \<in> set xs. cmd_key c = key \<Longrightarrow> map cmd_key xs = replicate n key"
    for xs :: "redis_cmd list" and n key
    by (auto simp: list_eq_iff_nth_eq)
  have r: "replicate 4 x = [x, x, x, x]" "replicate 2 x = [x, x]" "replicate 1 x = [x]" for x :: string
    by (simp_all add: numeral_eq_Suc)
  note t0 = cache_ops_use_game_key [where w = w0 and cr = toy_crypto and d = svc
      and genv = get_ok and cenv = create_ok and facilitatorID = "''alice''"
      and name = "''Sprint''" and estimationScaleID = "''scale1''"
      and pointValuesAllowed = "[''1'', ''2'', ''?'']" and stories = "[story1, story2]"
      and autoFinishVoting = True and pointAverageRounding = "''ceil''"
      and joinCode = "''join''" and facilitatorCode = "''lead''" and hideVoterIdentity = False]
  note t = t0 [THEN conjunct2, THEN conjunct1]
  note u0 = cache_ops_use_game_key [where w = joined and cr = toy_crypto and d = svc
      and genv = get_ok and pokerID = "''g1''" and userID = "''alice''"]
  note u = u0 [THEN conjunct1]
  note v0 = cache_ops_use_game_key [where w = "snd alice_read" and cr = toy_crypto and d = svc
      and uenv = update_up and pokerID = "''g1''" and name = "''Renamed''"
      and pointValuesAllowed = "[''1'', ''2'', ''?'']" and autoFinishVoting = True
      and pointAverageRounding = "''ceil''" and hideVoterIdentity = False
      and joinCode = "[]" and facilitatorCode = "[]" and teamID = "[]"]
  note v = v0 [THEN conjunct2, THEN conjunct2, THEN conjunct1]
  have a: "map cmd_key (issued w0 (snd created)) = replicate 4 ''game:g1''"
    using t 1 by (intro k) (simp_all add: created_def create_ok_def)
  have b: "map cmd_key (issued joined (snd alice_read)) = replicate 2 ''game:g1''"
    using u 2 by (intro k) (simp_all add: alice_read_def)
  have c: "map cmd_key (issued (snd alice_read) (snd (renamed update_up))) = replicate 1 ''game:g1''"
    using v 3 by (intro k) (simp_all add: renamed_def)
  from a b c show ?thesis by (simp add: r)
qed

section \<open>Creation followed by a read\<close>

lemma story_of_row_of_story: "story_of_row (row_of_story pid i s) = s\<lparr>sPosition := int i\<rparr>"
  by (simp add: story_of_row_def row_of_story_def)

lemma CreateGame_cache_entry:
  assumes created: "CreateGame cr d env genv facilitatorID name estimationScaleID pointValuesAllowed
            stories autoFinishVoting pointAverageRounding joinCode facilitatorCode
            hideVoterIdentity w = (Return g, w')"
    and fk: "foreign_keys_ok (db w)"
    and nocache: "cache w (game_key (new_id env)) = None"
  shows "cache w' (game_key (new_id env)) = None \<or>
         (\<exists>c. cache w' (game_key (new_id env)) = Some (Snapshot c) \<and> Users c = [])"
proof -
  from CreateGame_Return [OF created] obtain ej el rows where
    c: "encrypt_code cr joinCode (AESHashKey d) = Some ej"
       "encrypt_code cr facilitatorCode (AESHashKey d) = Some el"
       "\<not> begin_fails env" "\<not> poker_insert_fails env" "poker (db w) (new_id env) = None"
       "\<not> facilitator_insert_fails env"
       "insert_stories (story_insert_fails env) (new_id env) 0 stories (poker_story (db w)) = Some rows"
       "\<not> commit_fails env"
    by blast
  have users: "GetUsers (dbx\<lparr>poker_user := poker_user (db w)\<rparr>) (new_id env) = []" for dbx
    using fk c(5) by (auto simp: GetUsers_def foreign_keys_ok_def list_all_iff filter_empty_conv)
  have acc: "accepted d genv (new_id env) (w\<lparr>db := tx\<rparr>) = None" for tx
    using nocache by (simp add: accepted_def cached_game_def)
  have sr: "store_read cr d genv (new_id env) facilitatorID tx = Return b \<Longrightarrow>
      Users b = GetUsers tx (new_id env)" for tx b
    by (auto simp: store_read_def Let_def split: if_splits option.splits)
  show ?thesis
    using created c nocache users [of "db w\<lparr>poker := X, poker_facilitator := Y, poker_story := Z\<rparr>" for X Y Z]
    unfolding CreateGame_def Let_def
    by (auto simp: GetGameByID_miss [OF acc] snd_cache_read redis_Set_def redis_Exists_def
          marshal_Poker_def
        split: outcome.splits conn.splits if_splits dest!: sr)
qed

text \<open>
  C2, as stated, fails.  Alice creates a session with two stories.  The creation call
  returns an aggregate with no stories and no estimation scale; the read that follows
  returns the two stories and the scale of the store, so the two aggregates are not equal.
\<close>

theorem CreateGame_read_is_not_what_creation_returned:
  "map_outcome Stories (fst created) = Return [] \<and>
   map_outcome Stories (fst (GetGameByID toy_crypto svc get_ok ''g1'' ''alice'' (snd created))) =
     Return [story1\<lparr>sPosition := 0\<rparr>, story2\<lparr>sPosition := 1\<rparr>] \<and>
   map_outcome EstimationScale (fst created) = Return None \<and>
   map_outcome EstimationScale
     (fst (GetGameByID toy_crypto svc get_ok ''g1'' ''alice'' (snd created))) =
     Return (Some fibonacci) \<and>
   fst (GetGameByID toy_crypto svc get_ok ''g1'' ''alice'' (snd created)) \<noteq> fst created"
proof -
  let ?read = "fst (GetGameByID toy_crypto svc get_ok ''g1'' ''alice'' (snd created))"
  have 1: "map_outcome Stories (fst created) = Return []"
    by (simp add: example_defs eval_defs)
  have 2: "map_outcome Stories ?read =
     Return [story1\<lparr>sPosition := 0\<rparr>, story2\<lparr>sPosition := 1\<rparr>]"
    by (simp add: example_defs eval_defs)
  have 3: "map_outcome EstimationScale (fst created) = Return None"
    by (simp add: example_defs eval_defs)
  have 4: "map_outcome EstimationScale ?read = Return (Some fibonacci)"
    by (simp add: example_defs eval_defs)
  from 3 4 have "?read \<noteq> fst created"
    by auto
  with 1 2 3 4 show ?thesis by blast
qed

text \<open>
  C2, amended.  Let \<open>CreateGame\<close> succeed on a store whose rows refer to existing sessions,
  with no cache entry under the new session's key, and let the cipher decrypt what it
  encrypted (to a non-empty text).  Then a read of the new session by the creating
  facilitator, when its query and the decoding of the scale succeed, returns the aggregate
  that the creation call returned, except that its items are the persisted initial
  stories in the supplied order with positions \<open>0, ..., n-1\<close> (the creation call returns
  no items), its timestamps are those of the store, and its estimation scale is filled in
  from the store.  (The read is not served from the cache: the entry written at creation
  has no participants.)
\<close>

theorem CreateGame_then_GetGameByID:
  assumes created: "CreateGame cr d cenv genv facilitatorID name estimationScaleID pointValuesAllowed
            stories autoFinishVoting pointAverageRounding joinCode facilitatorCode
            hideVoterIdentity w = (Return g, w')"
    and fk: "foreign_keys_ok (db w)"
    and nocache: "cache w (game_key (new_id cenv)) = None"
    and crypto: "\<forall>code e. code \<noteq> [] \<and> Encrypt cr code (AESHashKey d) = Some e \<longrightarrow>
                   e \<noteq> [] \<and> Decrypt cr e (AESHashKey d) = Some code"
    and q: "\<not> query_fails genv'" "\<not> scale_unmarshal_fails genv'"
  shows "fst (GetGameByID cr d genv' (ID g) facilitatorID w') =
     Return (g\<lparr>Stories := map (\<lambda>(i, s). s\<lparr>sPosition := int i\<rparr>) (enumerate 0 stories),
              EstimationScale :=
                Some (case estimation_scale (db w) estimationScaleID of
                        Some es \<Rightarrow> es | None \<Rightarrow> zero_scale),
              CreatedDate := create_now cenv, UpdatedDate := create_now cenv\<rparr>)"
proof -
  let ?id = "new_id cenv"
  from CreateGame_Return [OF created] obtain ej el rows where
    ej: "encrypt_code cr joinCode (AESHashKey d) = Some ej"
    and el: "encrypt_code cr facilitatorCode (AESHashKey d) = Some el"
    and fresh: "poker (db w) ?id = None"
    and g: "g = \<lparr>ID = ?id, Name = name, Users = [], Stories = [], VotingLocked = True,
               ActiveStoryID = [], PointValuesAllowed = pointValuesAllowed,
               AutoFinishVoting = autoFinishVoting, Facilitators = [facilitatorID],
               PointAverageRounding = pointAverageRounding,
               HideVoterIdentity = hideVoterIdentity, JoinCode = joinCode,
               FacilitatorCode = facilitatorCode, TeamID = [],
               EstimationScaleID = estimationScaleID, EstimationScale = None,
               CreatedDate = 0, UpdatedDate = 0\<rparr>"
    and dbw': "db w' = (db w)\<lparr>poker := (poker (db w))(?id \<mapsto>
                 \<lparr>p_name = name, p_voting_locked = True, p_active_story_id = [],
                  p_point_values_allowed = pointValuesAllowed,
                  p_auto_finish_voting = autoFinishVoting,
                  p_point_average_rounding = pointAverageRounding,
                  p_hide_voter_identity = hideVoterIdentity,
                  p_join_code = ej, p_leader_code = el,
                  p_estimation_scale_id = estimationScaleID, p_team_id = [],
                  p_created_date = create_now cenv, p_updated_date = create_now cenv\<rparr>),
               poker_facilitator := poker_facilitator (db w) @ [(?id, facilitatorID)],
               poker_story := rows\<rparr>"
    by blast
  have id: "ID g = ?id" by (simp add: g)
  \<comment> \<open>the read goes to the store\<close>
  from CreateGame_cache_entry [OF created fk nocache]
  have acc: "accepted d genv' ?id w' = None"
    by (auto simp: accepted_def cached_game_def unmarshal_Poker_def structurally_complete_def)
  have read: "fst (GetGameByID cr d genv' ?id facilitatorID w') =
      store_read cr d genv' ?id facilitatorID (db w')"
    by (simp add: GetGameByID_miss [OF acc])
  \<comment> \<open>what the store holds for the new session\<close>
  have facs: "map snd (filter (\<lambda>bl. fst bl = ?id) (poker_facilitator (db w'))) = [facilitatorID]"
    using fk fresh by (auto simp: dbw' foreign_keys_ok_def list_all_iff filter_empty_conv)
  have users: "GetUsers (db w') ?id = []"
    using fk fresh by (auto simp: dbw' GetUsers_def foreign_keys_ok_def list_all_iff filter_empty_conv)
  let ?new = "map (\<lambda>(i, s). row_of_story ?id i s) (enumerate 0 stories)"
  have rows: "filter (\<lambda>r. sr_poker_id r = ?id) (poker_story (db w')) = ?new"
    by (rule CreateGame_story_rows [OF created fk])
  have "sorted (map sr_position ?new)"
    using positions_enumerate [of ?id 0 stories] by (simp add: sorted_map)
  then have sorted: "sort_key sr_position ?new = ?new"
    by (rule sort_key_id_if_sorted)
  have stories: "GetStories (db w') ?id facilitatorID =
      map (\<lambda>(i, s). s\<lparr>sPosition := int i\<rparr>) (enumerate 0 stories)"
  proof -
    have "GetStories (db w') ?id facilitatorID = map story_of_row ?new"
      by (simp only: GetStories_def rows sorted)
    also have "\<dots> = map (\<lambda>(i, s). s\<lparr>sPosition := int i\<rparr>) (enumerate 0 stories)"
      by (simp add: story_of_row_of_story split_def)
    finally show ?thesis .
  qed
  \<comment> \<open>the codes come back as they were given\<close>
  have jc: "(if ej \<noteq> [] then Decrypt cr ej (AESHashKey d) else Some []) = Some joinCode"
    using ej crypto by (auto simp: encrypt_code_def split: if_splits)
  have fc: "(if el \<noteq> [] then Decrypt cr el (AESHashKey d) else Some []) = Some facilitatorCode"
    using el crypto by (auto simp: encrypt_code_def split: if_splits)
  have row: "poker (db w') ?id = Some
                 \<lparr>p_name = name, p_voting_locked = True, p_active_story_id = [],
                  p_point_values_allowed = pointValuesAllowed,
                  p_auto_finish_voting = autoFinishVoting,
                  p_point_average_rounding = pointAverageRounding,
                  p_hide_voter_identity = hideVoterIdentity,
                  p_join_code = ej, p_leader_code = el,
                  p_estimation_scale_id = estimationScaleID, p_team_id = [],
                  p_created_date = create_now cenv, p_updated_date = create_now cenv\<rparr>"
    by (simp add: dbw')
  have scale: "estimation_scale (db w') = estimation_scale (db w)"
    by (simp add: dbw')
  have "store_read cr d genv' ?id facilitatorID (db w') =
     Return (g\<lparr>Stories := map (\<lambda>(i, s). s\<lparr>sPosition := int i\<rparr>) (enumerate 0 stories),
              EstimationScale :=
                Some (case estimation_scale (db w) estimationScaleID of
                        Some es \<Rightarrow> es | None \<Rightarrow> zero_scale),
              CreatedDate := create_now cenv, UpdatedDate := create_now cenv\<rparr>)"
    using q jc fc
    by (auto simp: store_read_def Let_def row facs users stories scale Contains_str_def g
        split: if_splits)
  with read id show ?thesis by simp
qed

theorem CreateGame_then_GetGameByID_witness:
  "foreign_keys_ok (db w0) \<and> cache w0 (game_key (new_id create_ok)) = None \<and>
   \<not> query_fails get_ok \<and> \<not> scale_unmarshal_fails get_ok \<and>
   (\<exists>g. fst created = Return g \<and>
        fst (GetGameByID toy_crypto svc get_ok (ID g) ''alice'' (snd created)) =
          Return (g\<lparr>Stories := [story1\<lparr>sPosition := 0\<rparr>, story2\<lparr>sPosition := 1\<rparr>],
                   EstimationScale := Some fibonacci, CreatedDate := 7, UpdatedDate := 7\<rparr>))"
proof -
  have fk: "foreign_keys_ok (db w0)"
    by (simp add: w0_def foreign_keys_ok_def)
  have nocache: "cache w0 (game_key (new_id create_ok)) = None"
    by (simp add: w0_def)
  have crypto: "\<forall>code e. code \<noteq> [] \<and> Encrypt toy_crypto code (AESHashKey svc) = Some e \<longrightarrow>
                   e \<noteq> [] \<and> Decrypt toy_crypto e (AESHashKey svc) = Some code"
    by (auto simp: toy_crypto_def has_prefix_def)
  have q: "\<not> query_fails get_ok" "\<not> scale_unmarshal_fails get_ok"
    by (simp_all add: get_ok_def)
  obtain g where g: "fst created = Return g"
    by (simp add: example_defs eval_defs)
  then have eq: "CreateGame toy_crypto svc create_ok get_ok ''alice'' ''Sprint'' ''scale1''
               [''1'', ''2'', ''?''] [story1, story2] True ''ceil'' ''join'' ''lead'' False w0 =
               (Return g, snd created)"
    by (metis created_def prod.collapse)
  have e: "map (\<lambda>(i, s). s\<lparr>sPosition := int i\<rparr>) (enumerate 0 [story1, story2]) =
        [story1\<lparr>sPosition := 0\<rparr>, story2\<lparr>sPosition := 1\<rparr>]"
    by simp
  have s: "estimation_scale (db w0) ''scale1'' = Some fibonacci" "create_now create_ok = 7"
    by (simp_all add: w0_def create_ok_def)
  note t = CreateGame_then_GetGameByID [OF eq fk nocache crypto q]
  have "fst (GetGameByID toy_crypto svc get_ok (ID g) ''alice'' (snd created)) =
          Return (g\<lparr>Stories := [story1\<lparr>sPosition := 0\<rparr>, story2\<lparr>sPosition := 1\<rparr>],
                   EstimationScale := Some fibonacci, CreatedDate := 7, UpdatedDate := 7\<rparr>)"
    using t unfolding e s by simp
  with fk nocache q g show ?thesis by blast
qed

section \<open>The facilitator code\<close>

text \<open>
  On the way through the store the facilitator code is decrypted for facilitators only:
  another caller gets an empty code, whatever the stored one is, and the join code is
  decrypted for every caller.
\<close>

lemma store_read_codes:
  assumes "store_read cr d env pokerID userID database = Return b"
  shows "\<exists>r. poker database pokerID = Some r \<and>
           (\<not> Contains_str (Facilitators b) userID \<longrightarrow> FacilitatorCode b = []) \<and>
           (p_join_code r \<noteq> [] \<longrightarrow> Decrypt cr (p_join_code r) (AESHashKey d) = Some (JoinCode b)) \<and>
           (p_join_code r = [] \<longrightarrow> JoinCode b = [])"
  using assms
  by (auto simp: store_read_def Let_def split: if_splits option.splits)

lemma store_read_leader_code_irrelevant:
  assumes "userID \<notin> snd ` {bl \<in> set (poker_facilitator database). fst bl = pokerID}"
    and "poker database pokerID = Some r"
  shows "store_read cr d env pokerID userID
           (database\<lparr>poker := (poker database)(pokerID \<mapsto> r\<lparr>p_leader_code := code\<rparr>)\<rparr>) =
         store_read cr d env pokerID userID database"
  using assms
  by (auto simp: store_read_def Let_def Contains_str_def GetUsers_def GetStories_def
      split: if_splits option.splits)

text \<open>
  C8 fails on the way through the cache.  Bob is a participant of alice's session and not
  a facilitator.  Read from the store, the session comes to bob without the facilitator
  code.  But once alice, the facilitator, has read the session, her aggregate (with the
  decrypted facilitator code) is in the cache, and bob's read returns it as it is.
\<close>

theorem cached_facilitator_code_reaches_non_facilitator:
  "\<not> Contains_str (map snd (filter (\<lambda>bl. fst bl = ''g1'') (poker_facilitator (db joined)))) ''bob'' \<and>
   map_outcome FacilitatorCode (fst (GetGameByID toy_crypto svc get_ok ''g1'' ''bob'' joined)) =
     Return [] \<and>
   map_outcome FacilitatorCode (fst alice_read) = Return ''lead'' \<and>
   map_outcome FacilitatorCode
     (fst (GetGameByID toy_crypto svc get_ok ''g1'' ''bob'' (snd alice_read))) = Return ''lead''"
  by (simp add: example_defs eval_defs)

section \<open>Point suggestion\<close>

lemma find_eq_member: "x \<in> set xs \<Longrightarrow> find (\<lambda>p. p = x) xs = Some x"
  by (induction xs) auto

lemma find_member: "find P xs = Some x \<Longrightarrow> x \<in> set xs"
  by (induction xs) (auto split: if_splits)

lemma closest_loop_member: "fst (closest_loop fdiff num ps (c, m)) \<in> insert c (set ps)"
  by (induction ps arbitrary: c m) (auto simp: Let_def split: option.splits)

text \<open>
  \<open>findClosestPoint\<close> returns on every non-empty list, and with the token \<open>?\<close> among the
  available points what it returns is one of them; so is the point of \<open>parseAIResponse\<close>,
  when \<open>parseAIResponse\<close> returns.
\<close>

lemma findClosestPoint_returns:
  "availablePoints \<noteq> [] \<Longrightarrow> \<exists>p. findClosestPoint fdiff point availablePoints = Return p"
  by (auto simp: findClosestPoint_def last_point_def split: option.splits)

lemma findClosestPoint_member:
  assumes "unsure \<in> set availablePoints"
    and "findClosestPoint fdiff point availablePoints = Return p"
  shows "p \<in> set availablePoints"
proof -
  have u: "find (\<lambda>p. p = unsure) availablePoints = Some unsure"
    using assms(1) by (rule find_eq_member)
  have c: "fst (closest_loop fdiff num availablePoints (unsure, MaxInt32)) \<in> set availablePoints" for num
    using closest_loop_member [of fdiff num availablePoints unsure MaxInt32] assms(1) by auto
  from assms(2) assms(1) show ?thesis
    unfolding findClosestPoint_def
    by (auto simp: u c split: option.splits if_splits dest: find_member)
qed

lemma parseAIResponse_point_member:
  assumes "unsure \<in> set availablePoints"
    and "parseAIResponse L fdiff content availablePoints = Return (p, r)"
  shows "p \<in> set availablePoints"
  using assms(2) assms(1)
  unfolding parseAIResponse_def with_reason_def Let_def
  by (auto split: option.splits if_splits outcome.splits
      dest: find_member findClosestPoint_member [OF assms(1)])

text \<open>
  On the empty list a point that is not a number makes \<open>findClosestPoint\<close> index
  \<open>availablePoints[len(availablePoints)-1]\<close> and panic; a number does not.  The panic is
  reached from \<open>parseAIResponse\<close> when the reply holds a JSON object with such a point.
\<close>

lemma findClosestPoint_empty_panics:
  "Atoi point = None \<Longrightarrow> findClosestPoint fdiff point [] = Panic IndexOutOfRange"
  by (auto simp: findClosestPoint_def last_point_def split: option.splits)

lemma findClosestPoint_empty_number:
  "Atoi point = Some num \<Longrightarrow> findClosestPoint fdiff point [] = Return unsure"
  by (auto simp: findClosestPoint_def last_point_def unsure_def coffee_def half_def Atoi_def
      Let_def is_digit_def split: if_splits)

lemma parseAIResponse_empty_panics:
  assumes "json_response L (TrimSpace content) = Some response"
    and "SuggestedPoint response \<noteq> []"
    and "Atoi (SuggestedPoint response) = None"
  shows "parseAIResponse L fdiff content [] = Panic IndexOutOfRange"
  using assms by (simp add: parseAIResponse_def findClosestPoint_empty_panics)

lemma reason_by_prefix_None:
  "\<forall>p \<in> set ps. Index (ToLower L content) (ToLower L p) < 0 \<Longrightarrow>
   reason_by_prefix L content ps = None"
  by (induction ps) (auto simp: Let_def)

text \<open>
  C10 fails in its first half.  The list of available points is \<open>["5", "?"]\<close>, non-empty
  and with the token \<open>?\<close>; the reply names the point 5 in words and ends in an empty JSON
  object.  The object has no suggested point, so the point is found by the first pattern
  and \<open>extractReason\<close> is called for the reason.  There the point statement is cut out
  of the reason, which leaves the two bytes \<open>{}\<close>, and the reason is then sliced at the
  offset 9 that the object has in the reply: \<open>reason[:jsonStart]\<close> is out of range and
  \<open>parseAIResponse\<close> panics.
\<close>

theorem parseAIResponse_panics_in_extractReason:
  assumes "Unmarshal L ''{}'' = Some \<lparr>SuggestedPoint = [], Reason = []\<rparr>"
    and "ToLower L reply_with_stray_object = reply_with_stray_object"
    and "\<forall>p \<in> set reasonPrefixes. ToLower L p = p"
  shows "parseAIResponse L fdiff reply_with_stray_object [''5'', ''?''] =
           Panic SliceBoundsOutOfRange"
proof -
  let ?c = reply_with_stray_object
  have trim: "TrimSpace ?c = ?c"
    by code_simp
  have span: "json_span ?c = Some (9, 10)"
    by code_simp
  have obj: "slice ?c 9 11 = Return ''{}''"
    by code_simp
  have resp: "json_response L ?c = Some \<lparr>SuggestedPoint = [], Reason = []\<rparr>"
    by (simp add: json_response_def span obj assms(1))
  have pat: "find (\<lambda>point. list_ex (Contains ?c) (point_patterns point)) [''5'', ''?''] = Some ''5''"
    by code_simp
  have "list_all (\<lambda>p. Index ?c p < 0) reasonPrefixes"
    by code_simp
  then have "\<forall>p \<in> set reasonPrefixes. Index (ToLower L ?c) (ToLower L p) < 0"
    using assms(2,3) by (simp add: list_all_iff)
  then have pre: "reason_by_prefix L ?c reasonPrefixes = None"
    by (rule reason_by_prefix_None)
  have cut: "remove_point_statements ?c = ''{}''"
    by code_simp
  have json: "remove_json ?c ''{}'' = Panic SliceBoundsOutOfRange"
    by code_simp
  have "extractReason L ?c = Panic SliceBoundsOutOfRange"
    by (simp add: extractReason_def resp pre cut json)
  then show ?thesis
    by (simp add: parseAIResponse_def Let_def trim resp pat with_reason_def del: find.simps)
qed

theorem parseAIResponse_panics_in_extractReason_witness:
  "Unmarshal ascii_lib ''{}'' = Some \<lparr>SuggestedPoint = [], Reason = []\<rparr> \<and>
   ToLower ascii_lib reply_with_stray_object = reply_with_stray_object \<and>
   list_all (\<lambda>p. ToLower ascii_lib p = p) reasonPrefixes \<and>
   unsure \<in> set [''5'', ''?''] \<and>
   parseAIResponse ascii_lib absdiff reply_with_stray_object [''5'', ''?''] =
     Panic SliceBoundsOutOfRange"
proof -
  have 1: "Unmarshal ascii_lib ''{}'' = Some \<lparr>SuggestedPoint = [], Reason = []\<rparr>"
    by (simp add: ascii_lib_def decode_empty_object_def)
  have "asciiToLower reply_with_stray_object = reply_with_stray_object"
    by code_simp
  then have 2: "ToLower ascii_lib reply_with_stray_object = reply_with_stray_object"
    by (simp add: ascii_lib_def)
  have "list_all (\<lambda>p. asciiToLower p = p) reasonPrefixes"
    by code_simp
  then have 3: "list_all (\<lambda>p. ToLower ascii_lib p = p) reasonPrefixes"
    by (simp add: ascii_lib_def)
  then have all: "\<forall>p \<in> set reasonPrefixes. ToLower ascii_lib p = p"
    by (simp add: list_all_iff)
  have 4: "unsure \<in> set [''5'', ''?'']"
    by (simp add: unsure_def)
  from parseAIResponse_panics_in_extractReason [OF 1 2 all] 1 2 3 4 show ?thesis
    by blast
qed

end
